theory Spec2Isabelle
  imports Complex_Main "HOL-Library.Sublist"
begin

section \<open>Zodiac classifier\<close>

text \<open>
  \<^verbatim>\<open>zodiac_sign(month, day)\<close> of \<^verbatim>\<open>backend/main.py\<close>: a chain of eleven tests on
  Python integers, each returning at once, with \<^verbatim>\<open>"pisces"\<close> as the last return.
\<close>

fun zodiac_sign :: "int \<Rightarrow> int \<Rightarrow> string" where
  "zodiac_sign month day =
    (if (month = 3 \<and> day \<ge> 21) \<or> (month = 4 \<and> day \<le> 19) then ''aries''
     else if (month = 4 \<and> day \<ge> 20) \<or> (month = 5 \<and> day \<le> 20) then ''taurus''
     else if (month = 5 \<and> day \<ge> 21) \<or> (month = 6 \<and> day \<le> 20) then ''gemini''
     else if (month = 6 \<and> day \<ge> 21) \<or> (month = 7 \<and> day \<le> 22) then ''cancer''
     else if (month = 7 \<and> day \<ge> 23) \<or> (month = 8 \<and> day \<le> 22) then ''leo''
     else if (month = 8 \<and> day \<ge> 23) \<or> (month = 9 \<and> day \<le> 22) then ''virgo''
     else if (month = 9 \<and> day \<ge> 23) \<or> (month = 10 \<and> day \<le> 22) then ''libra''
     else if (month = 10 \<and> day \<ge> 23) \<or> (month = 11 \<and> day \<le> 21) then ''scorpio''
     else if (month = 11 \<and> day \<ge> 22) \<or> (month = 12 \<and> day \<le> 21) then ''sagittarius''
     else if (month = 12 \<and> day \<ge> 22) \<or> (month = 1 \<and> day \<le> 19) then ''capricorn''
     else if (month = 1 \<and> day \<ge> 20) \<or> (month = 2 \<and> day \<le> 18) then ''aquarius''
     else ''pisces'')"

text \<open>
  The cutoffs in the words of the specification: the twelve first days of the Western
  tropical signs in calendar order. A date belongs to the sign of the last cutoff that is
  not after it; the days before the first cutoff of the year still belong to
  Capricorn, which began on 22 December. A cutoff day is thus a day of the later sign.
\<close>

definition sign_cutoffs :: "(int \<times> int \<times> string) list" where
  "sign_cutoffs =
    [(1, 20, ''aquarius''), (2, 19, ''pisces''), (3, 21, ''aries''), (4, 20, ''taurus''),
     (5, 21, ''gemini''), (6, 21, ''cancer''), (7, 23, ''leo''), (8, 23, ''virgo''),
     (9, 23, ''libra''), (10, 23, ''scorpio''), (11, 22, ''sagittarius''),
     (12, 22, ''capricorn'')]"

fun last_cutoff :: "(int \<times> int \<times> string) list \<Rightarrow> string \<Rightarrow> int \<Rightarrow> int \<Rightarrow> string" where
  "last_cutoff [] cur m d = cur"
| "last_cutoff ((cm, cd, s) # rest) cur m d =
    (if cm < m \<or> (cm = m \<and> cd \<le> d) then last_cutoff rest s m d else cur)"

definition tropical_sign :: "int \<Rightarrow> int \<Rightarrow> string" where
  "tropical_sign m d = last_cutoff sign_cutoffs ''capricorn'' m d"

definition sign_names :: "string list" where
  "sign_names = map (\<lambda>(m, d, s). s) sign_cutoffs"

definition days_in_month :: "int \<Rightarrow> int" where
  "days_in_month m = (if m = 2 then 29 else if m \<in> {4, 6, 9, 11} then 30 else 31)"

definition valid_month_day :: "int \<Rightarrow> int \<Rightarrow> bool" where
  "valid_month_day m d \<longleftrightarrow> 1 \<le> m \<and> m \<le> 12 \<and> 1 \<le> d \<and> d \<le> days_in_month m"


section \<open>Local moon phase\<close>

text \<open>
  Python floats are modelled as exact rationals: the constants of the source are decimal
  literals, and the comparisons below are against multiples of 1/16, which a binary
  float holds exactly. \<^verbatim>\<open>x % y\<close> on floats with \<open>y > 0\<close> is the remainder of the floored
  quotient, and \<^verbatim>\<open>round(x, n)\<close> rounds to \<open>n\<close> decimals, a tie going to the even digit.
\<close>

definition py_mod :: "rat \<Rightarrow> rat \<Rightarrow> rat" where
  "py_mod x y = x - y * of_int \<lfloor>x / y\<rfloor>"

definition py_round :: "rat \<Rightarrow> nat \<Rightarrow> rat" where
  "py_round x n =
    (let s = x * 10 ^ n; f = \<lfloor>s\<rfloor>; r = s - of_int f
     in of_int (if r < 1 / 2 then f else if 1 / 2 < r then f + 1
                else if even f then f else f + 1) / 10 ^ n)"

text \<open>
  A \<^verbatim>\<open>datetime\<close> without time zone: the day as the proleptic Gregorian ordinal that
  \<^verbatim>\<open>date.toordinal()\<close> gives (1 for 0001-01-01), and the time of day. Subtracting
  two of them gives a \<^verbatim>\<open>timedelta\<close>, whose \<^verbatim>\<open>total_seconds()\<close> is taken at once.
\<close>

record datetime =
  ordinal :: int
  hour :: int
  minute :: int
  second :: int
  microsecond :: int

definition total_seconds_between :: "datetime \<Rightarrow> datetime \<Rightarrow> rat" where
  "total_seconds_between a b =
    of_int ((ordinal a - ordinal b) * 86400
            + (hour a - hour b) * 3600 + (minute a - minute b) * 60 + (second a - second b))
    + of_int (microsecond a - microsecond b) / 1000000"

text \<open>\<^verbatim>\<open>datetime(2000, 1, 6, 18, 14, 0)\<close>; 2000-01-06 has ordinal 730125.\<close>

definition ref :: datetime where
  "ref = \<lparr>ordinal = 730125, hour = 18, minute = 14, second = 0, microsecond = 0\<rparr>"

definition synodic :: rat where
  "synodic = 2953058867 / 100000000"

definition moon_days :: "datetime \<Rightarrow> rat" where
  "moon_days utcnow =
    (let now = utcnow\<lparr>hour := 12, minute := 0, second := 0, microsecond := 0\<rparr>
     in total_seconds_between now ref / 86400)"

definition moon_title :: "rat \<Rightarrow> string" where
  "moon_title phase =
    (if phase < 0.0625 \<or> phase \<ge> 0.9375 then ''New Moon''
     else if phase < 0.1875 then ''Waxing Crescent''
     else if phase < 0.3125 then ''First Quarter''
     else if phase < 0.4375 then ''Waxing Gibbous''
     else if phase < 0.5625 then ''Full Moon''
     else if phase < 0.6875 then ''Waning Gibbous''
     else if phase < 0.8125 then ''Last Quarter''
     else ''Waning Crescent'')"

record moon_reading =
  moon_phase :: rat
  moon_phase_name :: string

text \<open>\<^verbatim>\<open>get_local_moon_phase()\<close>, with \<^verbatim>\<open>datetime.utcnow()\<close> as its argument.\<close>

definition get_local_moon_phase :: "datetime \<Rightarrow> moon_reading" where
  "get_local_moon_phase utcnow =
    (let days = moon_days utcnow;
         phase = py_mod days synodic / synodic;
         phase = py_round phase 3
     in \<lparr>moon_phase = phase, moon_phase_name = moon_title phase\<rparr>)"

text \<open>The eight names in the order of the lunar cycle.\<close>

definition phase_names :: "string list" where
  "phase_names =
    [''New Moon'', ''Waxing Crescent'', ''First Quarter'', ''Waxing Gibbous'',
     ''Full Moon'', ''Waning Gibbous'', ''Last Quarter'', ''Waning Crescent'']"

section \<open>Python strings\<close>

text \<open>
  A Python \<^verbatim>\<open>str\<close> is modelled as a \<^typ>\<open>string\<close> holding its UTF-8 bytes. The
  methods below act on the ASCII range, where a character is one byte: \<^verbatim>\<open>lower()\<close>
  maps \<^verbatim>\<open>A\<close>..\<^verbatim>\<open>Z\<close> to \<^verbatim>\<open>a\<close>..\<^verbatim>\<open>z\<close>, and \<^verbatim>\<open>strip()\<close> removes the ASCII white
  space (codes 9 to 13, 28 to 32). Bytes of characters beyond ASCII are left as they are.
\<close>

definition lower_char :: "char \<Rightarrow> char" where
  "lower_char c =
    (if 65 \<le> (of_char c :: nat) \<and> (of_char c :: nat) \<le> 90
     then char_of ((of_char c :: nat) + 32) else c)"

definition py_lower :: "string \<Rightarrow> string" where
  "py_lower s = map lower_char s"

definition is_space :: "char \<Rightarrow> bool" where
  "is_space c \<longleftrightarrow> (of_char c :: nat) \<in> {9, 10, 11, 12, 13, 28, 29, 30, 31, 32}"

definition py_strip :: "string \<Rightarrow> string" where
  "py_strip s = rev (dropWhile is_space (rev (dropWhile is_space s)))"

text \<open>\<^verbatim>\<open>needle in hay\<close> on strings: \<open>needle\<close> occurs as a contiguous piece of \<open>hay\<close>.\<close>

fun py_in :: "string \<Rightarrow> string \<Rightarrow> bool" where
  "py_in needle [] = (needle = [])"
| "py_in needle (c # cs) = (prefix needle (c # cs) \<or> py_in needle cs)"

text \<open>\<^verbatim>\<open>s.split(c)\<close> for a one-character separator; the result is never empty.\<close>

fun py_split :: "char \<Rightarrow> string \<Rightarrow> string list" where
  "py_split c [] = [[]]"
| "py_split c (x # xs) =
    (if x = c then [] # py_split c xs
     else (case py_split c xs of [] \<Rightarrow> [[x]] | w # ws \<Rightarrow> (x # w) # ws))"

text \<open>\<^verbatim>\<open>sep.join(parts)\<close>.\<close>

fun py_join :: "string \<Rightarrow> string list \<Rightarrow> string" where
  "py_join sep [] = []"
| "py_join sep [x] = x"
| "py_join sep (x # y # ys) = x @ sep @ py_join sep (y # ys)"

text \<open>\<^verbatim>\<open>str(n)\<close> for a natural number, and \<^verbatim>\<open>f"{x:.1f}"\<close> for a float.\<close>

definition digit_char :: "nat \<Rightarrow> char" where
  "digit_char d = ''0123456789'' ! d"

fun str_nat :: "nat \<Rightarrow> string" where
  "str_nat n =
    (if n < 10 then [digit_char n] else str_nat (n div 10) @ [digit_char (n mod 10)])"

declare str_nat.simps [simp del]

definition fmt_1f :: "rat \<Rightarrow> string" where
  "fmt_1f x =
    (let t = nat \<lfloor>py_round \<bar>x\<bar> 1 * 10\<rfloor>
     in (if x < 0 then ''-'' else []) @ str_nat (t div 10) @ ''.'' @ str_nat (t mod 10))"

text \<open>The degree sign U+00B0 and the em dash U+2014 of the source's literals, in UTF-8.\<close>

definition degree_sign :: string where
  "degree_sign = [CHR 0xC2, CHR 0xB0]"

definition em_dash :: string where
  "em_dash = [CHR 0xE2, CHR 0x80, CHR 0x94]"


section \<open>Natal chart\<close>

text \<open>
  An exception is a value: \<open>HTTPException\<close> with its status code and detail, or any other
  \<open>Exception\<close> with the text \<^verbatim>\<open>str(e)\<close> gives.
\<close>

datatype error = HTTPException nat string | Exception string

definition signs :: "string list" where
  "signs =
    [''aries'', ''taurus'', ''gemini'', ''cancer'', ''leo'', ''virgo'', ''libra'',
     ''scorpio'', ''sagittarius'', ''capricorn'', ''aquarius'', ''pisces'']"

text \<open>
  \<^verbatim>\<open>idx = int((deg % 360) // 30)\<close>: the remainder lies in \<open>[0, 360)\<close>, so the index is one
  of 0..11 and \<^verbatim>\<open>signs[idx]\<close> never leaves the list (lemma \<open>sign_index_lt_12\<close> below).
\<close>

definition sign_index :: "rat \<Rightarrow> nat" where
  "sign_index deg = nat \<lfloor>py_mod deg 360 / 30\<rfloor>"

definition degree_to_sign_name :: "rat \<Rightarrow> string" where
  "degree_to_sign_name deg = signs ! sign_index deg"

record date =
  year :: int
  month :: int
  day :: int

text \<open>
  The libraries the two chart functions call. \<open>birth_julday bday birth_time tz_name\<close>
  stands for the first statements of both functions: \<^verbatim>\<open>datetime.fromisoformat\<close> of the
  date and the time text (which raises on a malformed time), the time zone (UTC when the
  name does not resolve), the conversion to UTC and \<^verbatim>\<open>swe.julday\<close>. \<open>swe_houses jd lat lon\<close>
  is \<^verbatim>\<open>swe.houses\<close>, giving the cusp array and the array whose first entry is the
  ascendant; \<open>swe_calc_ut jd body\<close> is \<^verbatim>\<open>swe.calc_ut(jd, body)[0][0]\<close>, a longitude.
\<close>

record astro_lib =
  birth_julday :: "date \<Rightarrow> string \<Rightarrow> string \<Rightarrow> error + rat"
  swe_houses :: "rat \<Rightarrow> rat \<Rightarrow> rat \<Rightarrow> error + (rat list \<times> rat list)"
  swe_calc_ut :: "rat \<Rightarrow> nat \<Rightarrow> error + rat"

text \<open>The dictionary \<^verbatim>\<open>planets\<close> in insertion order, with the Swiss Ephemeris body numbers.\<close>

definition planets :: "(string \<times> nat) list" where
  "planets =
    [(''Sun'', 0), (''Moon'', 1), (''Mercury'', 2), (''Venus'', 3), (''Mars'', 4),
     (''Jupiter'', 5), (''Saturn'', 6), (''Uranus'', 7), (''Neptune'', 8), (''Pluto'', 9)]"

text \<open>The ascendant of the \<^verbatim>\<open>try\<close> block: any exception in it leaves \<^verbatim>\<open>asc_deg = None\<close>.\<close>

definition ascendant :: "astro_lib \<Rightarrow> rat \<Rightarrow> rat \<Rightarrow> rat \<Rightarrow> rat option" where
  "ascendant lib jd lat lon =
    (case swe_houses lib jd lat lon of
       Inl e \<Rightarrow> None
     | Inr (cusps, ascmc) \<Rightarrow> (case ascmc of [] \<Rightarrow> None | asc_deg # rest \<Rightarrow> Some asc_deg))"

definition planet_clause :: "string \<Rightarrow> rat \<Rightarrow> string" where
  "planet_clause name lonp =
    name @ '' in '' @ degree_to_sign_name lonp @ '' ('' @ fmt_1f lonp @ degree_sign @ '')''"

text \<open>The loop over \<^verbatim>\<open>planets.items()\<close>: a body whose computation raises is skipped.\<close>

fun planet_loop :: "astro_lib \<Rightarrow> rat \<Rightarrow> (string \<times> nat) list \<Rightarrow> string list \<Rightarrow> string list" where
  "planet_loop lib jd [] planet_parts = planet_parts"
| "planet_loop lib jd ((name, pconst) # rest) planet_parts =
    (case swe_calc_ut lib jd pconst of
       Inl e \<Rightarrow> planet_loop lib jd rest planet_parts
     | Inr lonp \<Rightarrow> planet_loop lib jd rest (planet_parts @ [planet_clause name lonp]))"

definition ascendant_clause :: "rat \<Rightarrow> string" where
  "ascendant_clause asc_deg =
    ''Ascendant: '' @ degree_to_sign_name asc_deg @ '' ('' @ fmt_1f asc_deg @ degree_sign @ '')''"

definition compute_natal_summary ::
  "astro_lib \<Rightarrow> date \<Rightarrow> string \<Rightarrow> rat \<Rightarrow> rat \<Rightarrow> string \<Rightarrow> error + string" where
  "compute_natal_summary lib bday birth_time lat lon tz_name =
    (case birth_julday lib bday birth_time tz_name of
       Inl e \<Rightarrow> Inl e
     | Inr jd \<Rightarrow>
        (let parts = (case ascendant lib jd lat lon of
                        None \<Rightarrow> []
                      | Some asc_deg \<Rightarrow> [ascendant_clause asc_deg]);
             planet_parts = planet_loop lib jd planets [];
             parts = (if planet_parts \<noteq> []
                      then parts @ [''Planets: '' @ py_join '', '' (take 6 planet_parts)]
                      else parts)
         in Inr (py_join ''; '' parts)))"

record house_cusp =
  cusp_house :: nat
  cusp_sign :: string
  cusp_degree :: rat

text \<open>
  The loop over \<^verbatim>\<open>indices\<close> with its counter \<^verbatim>\<open>house_num\<close>. Every index the function
  builds is below \<^verbatim>\<open>len(cusps)\<close>; the read is guarded all the same, as \<^verbatim>\<open>cusps[idx]\<close>
  raises out of range.
\<close>

fun house_loop :: "rat list \<Rightarrow> nat list \<Rightarrow> nat \<Rightarrow> house_cusp list \<Rightarrow> error + house_cusp list" where
  "house_loop cusps [] house_num houses = Inr houses"
| "house_loop cusps (idx # rest) house_num houses =
    (if idx < length cusps
     then (let deg = cusps ! idx;
               sgn = degree_to_sign_name deg;
               deg_in_sign = py_mod deg 30
           in house_loop cusps rest (house_num + 1)
                (houses @ [\<lparr>cusp_house = house_num, cusp_sign = sgn,
                            cusp_degree = py_round deg_in_sign 1\<rparr>]))
     else Inl (Exception ''tuple index out of range''))"

definition cusp_indices :: "rat list \<Rightarrow> nat list" where
  "cusp_indices cusps =
    (if length cusps \<ge> 13 then [1..<13] else [0..<min 12 (length cusps)])"

definition compute_house_cusps ::
  "astro_lib \<Rightarrow> date \<Rightarrow> string \<Rightarrow> rat \<Rightarrow> rat \<Rightarrow> string \<Rightarrow> error + house_cusp list" where
  "compute_house_cusps lib bday birth_time lat lon tz_name =
    (case birth_julday lib bday birth_time tz_name of
       Inl e \<Rightarrow> Inl e
     | Inr jd \<Rightarrow>
        (case swe_houses lib jd lat lon of
           Inl e \<Rightarrow> Inl e
         | Inr (cusps, ascmc) \<Rightarrow> house_loop cusps (cusp_indices cusps) 1 []))"

section \<open>Location resolver\<close>

text \<open>
  What \<^verbatim>\<open>client.get\<close> answers for the geocoding request: the status code and what
  \<^verbatim>\<open>res.json()\<close> gives, a list of candidates. Reading the coordinates of a candidate
  (\<^verbatim>\<open>float(data[0]["lat"])\<close>, \<^verbatim>\<open>float(data[0]["lon"])\<close>) may raise, so a candidate is
  the pair of coordinates or the exception. The request itself may raise (no network,
  time-out after 10 seconds), and so may \<^verbatim>\<open>res.json()\<close>. \<open>timezone_at lat lon\<close> is
  \<^verbatim>\<open>tf.timezone_at(lat=lat, lng=lon)\<close>: a zone name, \<^verbatim>\<open>None\<close>, or an exception for
  coordinates out of range.
\<close>

record geo_response =
  status_code :: nat
  json :: "error + (error + rat \<times> rat) list"

record geo_lib =
  nominatim_get :: "string \<Rightarrow> error + geo_response"
  timezone_at :: "rat \<Rightarrow> rat \<Rightarrow> error + string option"

type_synonym geocode_cache = "string \<rightharpoonup> rat \<times> rat \<times> string \<times> rat"

definition GEOCODE_TTL :: rat where
  "GEOCODE_TTL = 60 * 60 * 24 * 7"

text \<open>
  \<^verbatim>\<open>geocode_location(location)\<close>, with the module's cache passed in and returned and with
  \<^verbatim>\<open>time.time()\<close> as the argument \<open>now\<close>. \<^verbatim>\<open>x or "UTC"\<close> takes \<^verbatim>\<open>"UTC"\<close> for \<^verbatim>\<open>None\<close> and
  for the empty string.
\<close>

definition geocode_location ::
  "geo_lib \<Rightarrow> geocode_cache \<Rightarrow> rat \<Rightarrow> string \<Rightarrow> (error + rat \<times> rat \<times> string) \<times> geocode_cache" where
  "geocode_location lib cache now location =
    (let key = py_lower (py_strip location);
         fresh = (case cache key of
                    None \<Rightarrow> None
                  | Some (lat, lon, tz, stamp) \<Rightarrow>
                      if now - stamp < GEOCODE_TTL then Some (lat, lon, tz) else None)
     in case fresh of
          Some hit \<Rightarrow> (Inr hit, cache)
        | None \<Rightarrow>
           (case nominatim_get lib location of
              Inl e \<Rightarrow> (Inl e, cache)
            | Inr res \<Rightarrow>
               if status_code res \<noteq> 200
               then (Inl (HTTPException 502 ''Geocoding service error''), cache)
               else (case json res of
                       Inl e \<Rightarrow> (Inl e, cache)
                     | Inr [] \<Rightarrow>
                         (Inl (HTTPException 400 ''Could not geocode birth location''), cache)
                     | Inr (Inl e # rest) \<Rightarrow> (Inl e, cache)
                     | Inr (Inr (lat, lon) # rest) \<Rightarrow>
                         (case timezone_at lib lat lon of
                            Inl e \<Rightarrow> (Inl e, cache)
                          | Inr found \<Rightarrow>
                             (let tz_name = (case found of
                                               None \<Rightarrow> ''UTC''
                                             | Some tz \<Rightarrow> if tz = [] then ''UTC'' else tz)
                              in (Inr (lat, lon, tz_name),
                                  cache(key \<mapsto> (lat, lon, tz_name, now))))))))"


section \<open>Astronomy lookup\<close>

text \<open>
  A JSON value as far as the handler looks at it, and a Python dictionary of such values
  as an association list in insertion order.
\<close>

datatype jval = JNull | JStr string | JNum rat

type_synonym jdict = "(string \<times> jval) list"

fun dict_set :: "jdict \<Rightarrow> string \<Rightarrow> jval \<Rightarrow> jdict" where
  "dict_set [] k v = [(k, v)]"
| "dict_set ((k', v') # rest) k v =
    (if k' = k then (k, v) # rest else (k', v') # dict_set rest k v)"

fun dict_update :: "jdict \<Rightarrow> jdict \<Rightarrow> jdict" where
  "dict_update d [] = d"
| "dict_update d ((k, v) # rest) = dict_update (dict_set d k v) rest"

text \<open>\<^verbatim>\<open>d.get(k)\<close>: \<^verbatim>\<open>None\<close> for a missing key.\<close>

definition dict_get :: "jdict \<Rightarrow> string \<Rightarrow> jval" where
  "dict_get d k = (case map_of d k of None \<Rightarrow> JNull | Some v \<Rightarrow> v)"

definition moon_dict :: "datetime \<Rightarrow> jdict" where
  "moon_dict utcnow =
    (let m = get_local_moon_phase utcnow
     in [(''moon_phase'', JNum (moon_phase m)), (''moon_phase_name'', JStr (moon_phase_name m))])"

text \<open>
  The answer of the astronomy service: its status and the object under \<^verbatim>\<open>"daily"\<close>, each
  key with its list of values. Anything that raises inside the \<^verbatim>\<open>try\<close> (the request,
  \<^verbatim>\<open>res.json()\<close>, a body of another shape) is the \<open>Inl\<close> case.
\<close>

record astro_response =
  astro_status :: nat
  daily :: "error + (string \<rightharpoonup> jval list)"

definition first_value :: "(string \<rightharpoonup> jval list) \<Rightarrow> string \<Rightarrow> jval" where
  "first_value dly key =
    (case dly key of None \<Rightarrow> JNull | Some [] \<Rightarrow> JNull | Some (v # rest) \<Rightarrow> v)"

definition fetch_astronomy ::
  "(rat \<Rightarrow> rat \<Rightarrow> error + astro_response) \<Rightarrow> datetime \<Rightarrow> rat \<Rightarrow> rat \<Rightarrow> jdict" where
  "fetch_astronomy open_meteo_get utcnow lat lon =
    (case open_meteo_get lat lon of
       Inl e \<Rightarrow> moon_dict utcnow
     | Inr res \<Rightarrow>
        if astro_status res \<noteq> 200 then moon_dict utcnow
        else (case daily res of
                Inl e \<Rightarrow> moon_dict utcnow
              | Inr dly \<Rightarrow>
                 (let astronomy =
                        [(''sunrise'', first_value dly ''sunrise''),
                         (''sunset'', first_value dly ''sunset''),
                         (''moonrise'', first_value dly ''moonrise''),
                         (''moonset'', first_value dly ''moonset''),
                         (''moon_phase'', first_value dly ''moon_phase''),
                         (''day_length'', first_value dly ''day_length'')]
                  in if dict_get astronomy ''moon_phase'' = JNull
                     then dict_update astronomy (moon_dict utcnow)
                     else astronomy)))"

section \<open>Local fallback generator\<close>

text \<open>
  The seeded generator of the \<^verbatim>\<open>random\<close> module is the sequence of the values it is still
  to draw. \<^verbatim>\<open>random.choice(seq)\<close> is \<^verbatim>\<open>seq[self._randbelow(len(seq))]\<close>: one value is
  drawn, below the length of the sequence, each such value equally likely. The source
  calls it on non-empty sequences only.
\<close>

type_synonym rng = "nat \<Rightarrow> nat"

definition randbelow :: "rng \<Rightarrow> nat \<Rightarrow> nat \<times> rng" where
  "randbelow g n = (g 0 mod n, \<lambda>k. g (Suc k))"

definition choice :: "rng \<Rightarrow> 'a list \<Rightarrow> 'a \<times> rng" where
  "choice g seq = (let (i, g') = randbelow g (length seq) in (seq ! i, g'))"

definition transit_keywords :: "string list" where
  "transit_keywords =
    [''Venus trine Mars'', ''Mercury retrograde'', ''Moon sextile Jupiter'',
     ''Sun square Saturn'', ''Mars conjunct Pluto'', ''Jupiter opposite Neptune'',
     ''Saturn sextile Uranus'', ''Moon trine Venus'', ''Sun conjunct Mercury'',
     ''Venus square Neptune'', ''Mars sextile Saturn'', ''Jupiter trine Sun'']"

text \<open>The three groups of templates, as the three branches of the source write them.\<close>

definition serious_openings :: "string \<Rightarrow> string \<Rightarrow> string \<Rightarrow> string \<Rightarrow> string list" where
  "serious_openings display sign transit chart_feature =
    [display @ ''Today, '' @ sign @ '' energy is shaped by '' @ transit
       @ '', especially as it interacts with your '' @ chart_feature @ ''.'',
     display @ sign @ '' focus favors consistency and discipline, with '' @ transit
       @ '' influencing your '' @ chart_feature @ ''.'',
     display @ ''Your '' @ sign
       @ '' instincts lean toward structure and follow-through, as '' @ transit
       @ '' activates your '' @ chart_feature @ ''.'',
     display @ ''A grounded mood prevails for '' @ sign @ '', thanks to '' @ transit
       @ '' and your '' @ chart_feature @ ''.'']"

definition serious_advices :: "string \<Rightarrow> string \<Rightarrow> string \<Rightarrow> string list" where
  "serious_advices sign transit chart_feature =
    [''Choose one small task and finish it '' @ em_dash
       @ '' progress builds momentum, especially for your '' @ chart_feature @ ''.'',
     ''Pick a single priority and complete it without multitasking; your '' @ chart_feature
       @ '' will benefit.'',
     ''Commit to one simple routine and keep it clean and doable, honoring your ''
       @ chart_feature @ ''.'',
     ''Focus on practical goals and avoid distractions; '' @ transit @ '' supports your ''
       @ chart_feature @ ''.'']"

definition serious_whys :: "string \<Rightarrow> string \<Rightarrow> string \<Rightarrow> string list" where
  "serious_whys sign transit chart_feature =
    [transit @ '' brings clarity and rewards measured effort, especially for your ''
       @ chart_feature @ ''.'',
     ''Clarity grows when your effort is focused and measured, activating your ''
       @ chart_feature @ ''.'',
     ''Small, steady wins reduce friction and increase confidence in your '' @ chart_feature
       @ ''.'',
     ''This keeps stress low and creates clear results to build on, especially under ''
       @ transit @ '' and your '' @ chart_feature @ ''.'']"

definition inspirational_openings :: "string \<Rightarrow> string \<Rightarrow> string \<Rightarrow> string \<Rightarrow> string list" where
  "inspirational_openings display sign transit chart_feature =
    [display @ ''The stars nudge a quiet confidence in your '' @ sign
       @ '' nature today, as '' @ transit @ '' highlights your '' @ chart_feature @ ''.'',
     display @ ''Your '' @ sign
       @ '' spark feels brighter, like a candle finding fresh air as '' @ transit
       @ '' energizes your '' @ chart_feature @ ''.'',
     display @ ''A hopeful current runs through your '' @ sign @ '' spirit, inspired by ''
       @ transit @ '' and your '' @ chart_feature @ ''.'',
     display @ ''Momentum builds for '' @ sign @ '' as '' @ transit
       @ '' opens new possibilities for your '' @ chart_feature @ ''.'']"

definition inspirational_advices :: "string \<Rightarrow> string \<Rightarrow> string \<Rightarrow> string list" where
  "inspirational_advices sign transit chart_feature =
    [''Try something that stretches you a little '' @ em_dash
       @ '' a short, bold step will teach you more than a big plan, especially for your ''
       @ chart_feature @ ''.'',
     ''Let a small brave action open the door to a bigger story; your '' @ chart_feature
       @ '' is ready.'',
     ''Take one gentle leap and let it echo through your day, guided by your ''
       @ chart_feature @ ''.'',
     ''Embrace change and let inspiration guide you; '' @ transit @ '' empowers your ''
       @ chart_feature @ ''.'']"

definition inspirational_whys :: "string \<Rightarrow> string \<Rightarrow> string \<Rightarrow> string list" where
  "inspirational_whys sign transit chart_feature =
    [transit @ '' reveals strengths and reduces fear of failure, especially for your ''
       @ chart_feature @ ''.'',
     ''Momentum arrives when you choose possibility over perfection, activating your ''
       @ chart_feature @ ''.'',
     ''A tiny risk can light a path you did not know existed, especially with '' @ transit
       @ '' energizing your '' @ chart_feature @ ''.'',
     ''Today is notable for '' @ sign @ '' because '' @ transit
       @ '' encourages growth in your '' @ chart_feature @ ''.'']"

definition playful_openings :: "string \<Rightarrow> string \<Rightarrow> string \<Rightarrow> string \<Rightarrow> string list" where
  "playful_openings display sign transit chart_feature =
    [display @ ''Your '' @ sign @ '' vibe today is playful and a little impatient, with ''
       @ transit @ '' stirring your '' @ chart_feature @ ''.'',
     display @ ''Your '' @ sign @ '' mood is mischievous, like it had too much coffee ''
       @ em_dash @ '' blame '' @ transit @ '' for your '' @ chart_feature @ ''!'',
     display @ ''Your '' @ sign @ '' energy is bouncy and slightly chaotic, thanks to ''
       @ transit @ '' and your '' @ chart_feature @ ''.'',
     display @ ''A quirky twist for '' @ sign @ '' as '' @ transit
       @ '' adds excitement to your '' @ chart_feature @ ''.'']"

definition playful_advices :: "string \<Rightarrow> string \<Rightarrow> string \<Rightarrow> string list" where
  "playful_advices sign transit chart_feature =
    [''Do one unexpected, harmless thing that sparks joy '' @ em_dash
       @ '' a tiny risk with upside for your '' @ chart_feature @ ''.'',
     ''Try a small plot twist in your routine and see what it unlocks for your ''
       @ chart_feature @ ''.'',
     ''Give yourself one goofy detour and keep the rest simple, honoring your ''
       @ chart_feature @ ''.'',
     ''Let spontaneity lead the way and enjoy the ride; '' @ transit @ '' energizes your ''
       @ chart_feature @ ''.'']"

definition playful_whys :: "string \<Rightarrow> string \<Rightarrow> string \<Rightarrow> string list" where
  "playful_whys sign transit chart_feature =
    [transit @ '' breaks routine and creates space for new opportunities in your ''
       @ chart_feature @ ''.'',
     ''Surprise adds fuel to your momentum without derailing the day, especially for your ''
       @ chart_feature @ ''.'',
     ''A playful shake-up makes the ordinary feel magnetic, especially with '' @ transit
       @ '' in play for your '' @ chart_feature @ ''.'',
     ''Today is notable for '' @ sign @ '' because '' @ transit
       @ '' brings unexpected fun to your '' @ chart_feature @ ''.'']"

text \<open>\<^verbatim>\<open>f"{x}"\<close> for a value that may be \<^verbatim>\<open>None\<close>, and the truth value of such a value.\<close>

definition str_opt :: "string option \<Rightarrow> string" where
  "str_opt x = (case x of None \<Rightarrow> ''None'' | Some s \<Rightarrow> s)"

definition truthy :: "string option \<Rightarrow> bool" where
  "truthy x = (case x of None \<Rightarrow> False | Some s \<Rightarrow> s \<noteq> [])"

text \<open>\<^verbatim>\<open>tone and needle in tone.lower()\<close>.\<close>

definition tone_has :: "string \<Rightarrow> string option \<Rightarrow> bool" where
  "tone_has needle tone =
    (case tone of None \<Rightarrow> False | Some t \<Rightarrow> t \<noteq> [] \<and> py_in needle (py_lower t))"

text \<open>The \<^verbatim>\<open>if\<close>/\<^verbatim>\<open>elif\<close>/\<^verbatim>\<open>else\<close> that sets \<^verbatim>\<open>openings\<close>, \<^verbatim>\<open>advices\<close> and \<^verbatim>\<open>whys\<close>.\<close>

definition tone_templates ::
  "string option \<Rightarrow> string \<Rightarrow> string \<Rightarrow> string \<Rightarrow> string
     \<Rightarrow> string list \<times> string list \<times> string list" where
  "tone_templates tone display sign transit chart_feature =
    (if tone_has ''serious'' tone
     then (serious_openings display sign transit chart_feature,
           serious_advices sign transit chart_feature,
           serious_whys sign transit chart_feature)
     else if tone_has ''inspir'' tone
     then (inspirational_openings display sign transit chart_feature,
           inspirational_advices sign transit chart_feature,
           inspirational_whys sign transit chart_feature)
     else (playful_openings display sign transit chart_feature,
           playful_advices sign transit chart_feature,
           playful_whys sign transit chart_feature))"

text \<open>
  \<^verbatim>\<open>chart_features\<close>: empty without a natal summary, else the pieces between the
  semicolons that \<^verbatim>\<open>strip()\<close> does not empty.
\<close>

definition chart_features :: "string option \<Rightarrow> string list" where
  "chart_features natal_summary =
    (if truthy natal_summary
     then filter (\<lambda>f. py_strip f \<noteq> []) (py_split CHR '';'' (str_opt natal_summary))
     else [])"

definition pick_chart_feature :: "rng \<Rightarrow> string \<Rightarrow> string option \<Rightarrow> string \<times> rng" where
  "pick_chart_feature g sign natal_summary =
    (if chart_features natal_summary \<noteq> []
     then choice g (chart_features natal_summary)
     else (''Ascendant in '' @ sign, g))"

text \<open>
  \<^verbatim>\<open>local_fallback(name, sign, tone, natal_summary)\<close>. The generator it seeds is the
  argument \<open>g\<close>; the draws follow the order of the source: transit, chart feature (when
  there is one to draw), opening, advice, why.
\<close>

definition local_fallback ::
  "rng \<Rightarrow> string option \<Rightarrow> string \<Rightarrow> string option \<Rightarrow> string option \<Rightarrow> string" where
  "local_fallback g name sign tone natal_summary =
    (let display = (if truthy name then str_opt name @ '', '' else []);
         (transit, g) = choice g transit_keywords;
         (chart_feature, g) = pick_chart_feature g sign natal_summary;
         (openings, advices, whys) = tone_templates tone display sign transit chart_feature;
         (opening, g) = choice g openings;
         (advice, g) = choice g advices;
         (why, g) = choice g whys;
         natal_hint = (if truthy natal_summary then '' ('' @ str_opt natal_summary @ '')'' else [])
     in opening @ '' '' @ advice @ natal_hint @ '' '' @ why)"

text \<open>
  \<^verbatim>\<open>seed_source\<close>, the text whose SHA-256 digest seeds the generator; \<open>now\<close> is the text
  of \<^verbatim>\<open>time.time()\<close>.
\<close>

definition seed_source :: "string option \<Rightarrow> string \<Rightarrow> string option \<Rightarrow> string option \<Rightarrow> string \<Rightarrow> string" where
  "seed_source name sign tone natal_summary now =
    str_opt name @ ''|'' @ sign @ ''|'' @ str_opt tone @ ''|''
      @ (if truthy natal_summary then str_opt natal_summary else []) @ ''|'' @ now"

section \<open>Request handler\<close>

text \<open>
  The request as the handler reads it: the \<^verbatim>\<open>content-type\<close> header (empty when absent),
  what \<^verbatim>\<open>await request.json()\<close> and \<^verbatim>\<open>await request.form()\<close> give (either may raise),
  and the two headers that choose the form of the answer. A JSON body is an object whose
  values are strings or \<^verbatim>\<open>null\<close>: a key maps to \<open>None\<close> when it is missing, to
  \<open>Some None\<close> when it is \<^verbatim>\<open>null\<close>. A JSON body that is not an object makes the first
  \<^verbatim>\<open>payload.get\<close> raise, and counts here with the bodies \<^verbatim>\<open>request.json()\<close> refuses.
  A form holds strings only.
\<close>

record request =
  content_type :: string
  json_body :: "error + (string \<rightharpoonup> string option)"
  form_body :: "error + (string \<rightharpoonup> string)"
  accept :: string
  x_requested_with :: "string option"

record birth_input =
  in_name :: "string option"
  in_birthday :: "string option"
  in_birth_time :: "string option"
  in_birth_location :: "string option"
  in_tone :: "string option"

text \<open>\<^verbatim>\<open>payload.get(k)\<close> and \<^verbatim>\<open>payload.get(k, default)\<close> on the JSON object.\<close>

definition json_get :: "(string \<rightharpoonup> string option) \<Rightarrow> string \<Rightarrow> string option" where
  "json_get payload k = (case payload k of None \<Rightarrow> None | Some v \<Rightarrow> v)"

definition json_get_default ::
  "(string \<rightharpoonup> string option) \<Rightarrow> string \<Rightarrow> string \<Rightarrow> string option" where
  "json_get_default payload k dflt = (case payload k of None \<Rightarrow> Some dflt | Some v \<Rightarrow> v)"

definition read_input :: "request \<Rightarrow> error + birth_input" where
  "read_input req =
    (if py_in ''application/json'' (content_type req)
     then (case json_body req of
             Inl e \<Rightarrow> Inl e
           | Inr payload \<Rightarrow>
               Inr \<lparr>in_name = json_get payload ''name'',
                    in_birthday = json_get payload ''birthday'',
                    in_birth_time = json_get payload ''birth_time'',
                    in_birth_location = json_get payload ''birth_location'',
                    in_tone = json_get_default payload ''tone'' ''funny''\<rparr>)
     else (case form_body req of
             Inl e \<Rightarrow> Inl e
           | Inr form \<Rightarrow>
               Inr \<lparr>in_name = form ''name'',
                    in_birthday = form ''birthday'',
                    in_birth_time = form ''birth_time'',
                    in_birth_location = form ''birth_location'',
                    in_tone = (case form ''tone'' of None \<Rightarrow> Some ''funny'' | Some v \<Rightarrow> Some v)\<rparr>))"

text \<open>
  What the generator is asked: \<^verbatim>\<open>system_msg\<close> is a constant and \<^verbatim>\<open>user_msg\<close> is built
  from these values and nothing else, so the hosted model is taken as a function of them.
\<close>

record prompt =
  p_name :: "string option"
  p_sign :: string
  p_bday :: date
  p_birth_time :: string
  p_birth_location :: string
  p_tone :: "string option"
  p_natal_summary :: "string option"
  p_astronomy :: jdict

text \<open>
  Everything outside the module that a request touches. \<open>date_fromisoformat\<close> is
  \<^verbatim>\<open>date.fromisoformat\<close> on a string. \<open>openai_client\<close> is \<open>None\<close> when no key is
  configured; otherwise it answers a prompt with the stripped text of the first choice
  (\<open>Inr\<close>), or raises, and then \<open>Inl\<close> carries \<^verbatim>\<open>str(e)\<close>. \<open>random_seed\<close> is the
  generator that \<^verbatim>\<open>random.seed\<close> of the digest of a text leaves; \<open>time_time\<close> and
  \<open>seed_time\<close> are \<^verbatim>\<open>time.time()\<close> as the resolver reads it and its text as the seed
  holds it; \<open>utcnow\<close> is \<^verbatim>\<open>datetime.utcnow()\<close>.
\<close>

record env =
  date_fromisoformat :: "string \<Rightarrow> error + date"
  geo :: geo_lib
  swe :: astro_lib
  open_meteo_get :: "rat \<Rightarrow> rat \<Rightarrow> error + astro_response"
  openai_client :: "(prompt \<Rightarrow> string + string) option"
  random_seed :: "string \<Rightarrow> rng"
  time_time :: rat
  seed_time :: string
  utcnow :: datetime

text \<open>
  \<^verbatim>\<open>date.fromisoformat(birthday)\<close> inside its \<^verbatim>\<open>try\<close>: the call raises \<^verbatim>\<open>TypeError\<close> on
  \<^verbatim>\<open>None\<close>, and every exception becomes the same HTTP 400.
\<close>

definition fromisoformat_arg :: "env \<Rightarrow> string option \<Rightarrow> error + date" where
  "fromisoformat_arg e birthday =
    (case birthday of
       None \<Rightarrow> Inl (Exception ''fromisoformat: argument must be str'')
     | Some s \<Rightarrow> date_fromisoformat e s)"

definition parse_birthday :: "env \<Rightarrow> string option \<Rightarrow> error + date" where
  "parse_birthday e birthday =
    (case fromisoformat_arg e birthday of
       Inl err \<Rightarrow> Inl (HTTPException 400 ''Invalid birthday format'')
     | Inr bday \<Rightarrow> Inr bday)"

record chart =
  natal_summary :: "string option"
  houses :: "house_cusp list"
  astronomy_data :: jdict

text \<open>
  The block under \<^verbatim>\<open>if lat is not None and lon is not None\<close>: three attempts, each with
  its own \<^verbatim>\<open>except Exception\<close>. Without coordinates the three values keep their defaults.
\<close>

definition compute_chart ::
  "env \<Rightarrow> date \<Rightarrow> string \<Rightarrow> (rat \<times> rat \<times> string) option \<Rightarrow> chart" where
  "compute_chart e bday birth_time coords =
    (case coords of
       None \<Rightarrow> \<lparr>natal_summary = None, houses = [], astronomy_data = []\<rparr>
     | Some (lat, lon, tz_name) \<Rightarrow>
        \<lparr>natal_summary =
           (case compute_natal_summary (swe e) bday birth_time lat lon tz_name of
              Inl err \<Rightarrow> None | Inr s \<Rightarrow> Some s),
         houses =
           (case compute_house_cusps (swe e) bday birth_time lat lon tz_name of
              Inl err \<Rightarrow> [] | Inr hs \<Rightarrow> hs),
         astronomy_data = fetch_astronomy (open_meteo_get e) (utcnow e) lat lon\<rparr>)"

text \<open>The call of the hosted model inside the \<^verbatim>\<open>try\<close>, with the \<^verbatim>\<open>RuntimeError\<close> of a missing client.\<close>

definition primary_call :: "env \<Rightarrow> prompt \<Rightarrow> string + string" where
  "primary_call e p =
    (case openai_client e of
       None \<Rightarrow> Inl ''OpenAI client not configured''
     | Some create \<Rightarrow> create p)"

text \<open>The test of the \<^verbatim>\<open>except\<close> branch on \<^verbatim>\<open>err_text = str(e)\<close>.\<close>

definition quota_like :: "string \<Rightarrow> bool" where
  "quota_like err_text \<longleftrightarrow>
     py_in ''quota'' (py_lower err_text) \<or> py_in ''429'' err_text
     \<or> py_in ''insufficient_quota'' err_text
     \<or> py_in ''not configured'' (py_lower err_text)
     \<or> py_in ''openai'' (py_lower err_text)"

definition generate ::
  "env \<Rightarrow> prompt \<Rightarrow> string option \<Rightarrow> string \<Rightarrow> string option \<Rightarrow> string option \<Rightarrow> error + string" where
  "generate e p name sign tone natal =
    (case primary_call e p of
       Inr generated \<Rightarrow> Inr generated
     | Inl err_text \<Rightarrow>
        if quota_like err_text
        then Inr (local_fallback
                    (random_seed e (seed_source name sign tone natal (seed_time e)))
                    name sign tone natal)
        else Inl (HTTPException 502 (''OpenAI API error: '' @ err_text)))"

record payload =
  horoscope_text :: string
  payload_astronomy :: jdict
  payload_houses :: "house_cusp list"

record page =
  page_result :: string
  page_sign :: string
  page_name :: "string option"
  page_natal :: "string option"

datatype response = JSONResponse payload | TemplateResponse page

definition respond ::
  "request \<Rightarrow> string \<Rightarrow> chart \<Rightarrow> string \<Rightarrow> string option \<Rightarrow> response" where
  "respond req generated ch sign name =
    (if py_in ''application/json'' (accept req)
        \<or> x_requested_with req = Some ''XMLHttpRequest''
     then JSONResponse \<lparr>horoscope_text = generated,
                        payload_astronomy = astronomy_data ch,
                        payload_houses = houses ch\<rparr>
     else TemplateResponse \<lparr>page_result = generated, page_sign = sign,
                            page_name = name, page_natal = natal_summary ch\<rparr>)"

text \<open>
  The coordinates after the \<^verbatim>\<open>try\<close> around \<^verbatim>\<open>geocode_location\<close>: an \<open>HTTPException\<close>
  is raised again, any other exception leaves \<^verbatim>\<open>lat = lon = None\<close>.
\<close>

definition resolve_coords ::
  "error + rat \<times> rat \<times> string \<Rightarrow> error + (rat \<times> rat \<times> string) option" where
  "resolve_coords r =
    (case r of
       Inr found \<Rightarrow> Inr (Some found)
     | Inl (HTTPException code detail) \<Rightarrow> Inl (HTTPException code detail)
     | Inl (Exception msg) \<Rightarrow> Inr None)"

text \<open>
  \<^verbatim>\<open>horoscope(request)\<close>, the handler of \<^verbatim>\<open>POST /horoscope\<close>, with the geocode cache passed
  in and returned. \<open>Inl\<close> is the exception that leaves the handler: an \<open>HTTPException\<close>
  is answered with its status, anything else is an internal server error.
\<close>

definition horoscope :: "env \<Rightarrow> geocode_cache \<Rightarrow> request \<Rightarrow> (error + response) \<times> geocode_cache" where
  "horoscope e cache req =
    (case read_input req of
       Inl err \<Rightarrow> (Inl err, cache)
     | Inr inp \<Rightarrow>
        (case parse_birthday e (in_birthday inp) of
           Inl err \<Rightarrow> (Inl err, cache)
         | Inr bday \<Rightarrow>
            (let sign = zodiac_sign (month bday) (day bday)
             in if \<not> truthy (in_birth_time inp) \<or> \<not> truthy (in_birth_location inp)
                then (Inl (HTTPException 400 ''Both birth_time and birth_location are required''),
                      cache)
                else
                 (let birth_time = str_opt (in_birth_time inp);
                      birth_location = str_opt (in_birth_location inp);
                      (found, cache') =
                         geocode_location (geo e) cache (time_time e) birth_location
                  in case resolve_coords found of
                       Inl err \<Rightarrow> (Inl err, cache')
                     | Inr coords \<Rightarrow>
                        (let ch = compute_chart e bday birth_time coords;
                             p = \<lparr>p_name = in_name inp, p_sign = sign, p_bday = bday,
                                  p_birth_time = birth_time,
                                  p_birth_location = birth_location,
                                  p_tone = in_tone inp,
                                  p_natal_summary = natal_summary ch,
                                  p_astronomy = astronomy_data ch\<rparr>
                         in case generate e p (in_name inp) sign (in_tone inp)
                                   (natal_summary ch) of
                              Inl err \<Rightarrow> (Inl err, cache')
                            | Inr generated \<Rightarrow>
                                (Inr (respond req generated ch sign (in_name inp)),
                                 cache'))))))"


section \<open>The answer of the framework\<close>

text \<open>
  The status FastAPI answers with: 200 for a response the handler returns, the status of
  an \<open>HTTPException\<close>, 500 for any other exception that leaves the handler.
\<close>

definition status_of :: "error + response \<Rightarrow> nat" where
  "status_of r =
    (case r of
       Inr resp \<Rightarrow> 200
     | Inl (HTTPException code detail) \<Rightarrow> code
     | Inl (Exception msg) \<Rightarrow> 500)"


section \<open>The properties in the words of the specification\<close>

text \<open>
  A text contains a needle case-insensitively when one of its contiguous pieces equals
  the needle once the case of both is ignored.
\<close>

definition ci_contains :: "string \<Rightarrow> string \<Rightarrow> bool" where
  "ci_contains needle hay \<longleftrightarrow> (\<exists>piece \<in> set (sublists hay). py_lower piece = py_lower needle)"

text \<open>The three groups of templates and the rule that names the group of a tone.\<close>

datatype bucket = Serious | Inspirational | Playful

definition bucket_templates ::
  "bucket \<Rightarrow> string \<Rightarrow> string \<Rightarrow> string \<Rightarrow> string \<Rightarrow> string list \<times> string list \<times> string list" where
  "bucket_templates b display sign transit chart_feature =
    (case b of
       Serious \<Rightarrow> (serious_openings display sign transit chart_feature,
                   serious_advices sign transit chart_feature,
                   serious_whys sign transit chart_feature)
     | Inspirational \<Rightarrow> (inspirational_openings display sign transit chart_feature,
                         inspirational_advices sign transit chart_feature,
                         inspirational_whys sign transit chart_feature)
     | Playful \<Rightarrow> (playful_openings display sign transit chart_feature,
                   playful_advices sign transit chart_feature,
                   playful_whys sign transit chart_feature))"

definition tone_bucket :: "string option \<Rightarrow> bucket" where
  "tone_bucket tone =
    (case tone of
       None \<Rightarrow> Playful
     | Some t \<Rightarrow> if ci_contains ''serious'' t then Serious
                else if ci_contains ''inspir'' t then Inspirational
                else Playful)"

text \<open>
  The segments of a natal summary: its pieces between semicolons, those made of white
  space only (the empty one among them) dropped. An absent summary has none.
\<close>

definition natal_segments :: "string option \<Rightarrow> string list" where
  "natal_segments natal =
    (case natal of
       None \<Rightarrow> []
     | Some s \<Rightarrow> filter (\<lambda>f. \<not> list_all is_space f) (py_split CHR '';'' s))"

text \<open>
  Every text the fallback can give for a group of templates: any transit, any chart
  feature (a segment of the summary, or the default one when there is none), and any
  opening, advice and why of the group.
\<close>

definition fallback_texts ::
  "bucket \<Rightarrow> string option \<Rightarrow> string \<Rightarrow> string option \<Rightarrow> string list" where
  "fallback_texts b name sign natal =
    concat (map (\<lambda>transit.
      concat (map (\<lambda>chart_feature.
        (case bucket_templates b (if truthy name then str_opt name @ '', '' else [])
                sign transit chart_feature of
           (openings, advices, whys) \<Rightarrow>
             concat (map (\<lambda>opening.
               concat (map (\<lambda>advice.
                 map (\<lambda>why.
                   opening @ '' '' @ advice
                     @ (if truthy natal then '' ('' @ str_opt natal @ '')'' else [])
                     @ '' '' @ why) whys) advices)) openings)))
        (if natal_segments natal = [] then [''Ascendant in '' @ sign]
         else natal_segments natal)))
      transit_keywords)"

text \<open>The error texts that count as a quota or configuration problem.\<close>

definition fallback_needles :: "string list" where
  "fallback_needles = [''quota'', ''429'', ''insufficient_quota'', ''not configured'', ''openai'']"

definition quota_or_config_error :: "string \<Rightarrow> bool" where
  "quota_or_config_error msg \<longleftrightarrow> list_ex (\<lambda>needle. ci_contains needle msg) fallback_needles"

text \<open>
  House \<open>num\<close> read at index \<open>idx\<close> of the cusp array: its sign and its degree within the
  sign, rounded to one decimal.
\<close>

definition house_of :: "rat list \<Rightarrow> nat \<Rightarrow> nat \<Rightarrow> house_cusp" where
  "house_of cusps num idx =
    \<lparr>cusp_house = num, cusp_sign = degree_to_sign_name (cusps ! idx),
     cusp_degree = py_round (py_mod (cusps ! idx) 30) 1\<rparr>"

text \<open>
  Houses 1 to \<open>count\<close> in ascending order, house 1 read at index \<open>first\<close> and each next
  house at the next index.
\<close>

definition numbered_houses :: "rat list \<Rightarrow> nat \<Rightarrow> nat \<Rightarrow> house_cusp list" where
  "numbered_houses cusps first count = map (\<lambda>k. house_of cusps (k + 1) (first + k)) [0..<count]"

text \<open>
  One clause for each body whose longitude is computed, in the order of \<open>planets\<close>; a
  body whose computation fails gives none.
\<close>

definition computed_planets :: "astro_lib \<Rightarrow> rat \<Rightarrow> string list" where
  "computed_planets lib jd =
    concat (map (\<lambda>(name, pconst).
                  case swe_calc_ut lib jd pconst of
                    Inl e \<Rightarrow> []
                  | Inr lonp \<Rightarrow> [planet_clause name lonp]) planets)"

definition ascendant_part :: "astro_lib \<Rightarrow> rat \<Rightarrow> rat \<Rightarrow> rat \<Rightarrow> string list" where
  "ascendant_part lib jd lat lon =
    (case ascendant lib jd lat lon of None \<Rightarrow> [] | Some asc_deg \<Rightarrow> [ascendant_clause asc_deg])"

text \<open>
  The summary as a list of clauses joined by semicolons: the ascendant clause, then one
  clause for each of the first six computed bodies.
\<close>

definition clause_list_summary :: "astro_lib \<Rightarrow> rat \<Rightarrow> rat \<Rightarrow> rat \<Rightarrow> string" where
  "clause_list_summary lib jd lat lon =
    py_join ''; '' (ascendant_part lib jd lat lon @ take 6 (computed_planets lib jd))"

text \<open>
  The summary with the bodies gathered in one clause: the ascendant clause, then, when a
  body was computed, a single clause \<^verbatim>\<open>Planets: \<close> listing the first six computed bodies
  separated by commas.
\<close>

definition grouped_summary :: "astro_lib \<Rightarrow> rat \<Rightarrow> rat \<Rightarrow> rat \<Rightarrow> string" where
  "grouped_summary lib jd lat lon =
    py_join ''; ''
      (ascendant_part lib jd lat lon
       @ (if computed_planets lib jd = [] then []
          else [''Planets: '' @ py_join '', '' (take 6 (computed_planets lib jd))]))"

text \<open>No usable entry of the cache for a location at the time \<open>now\<close>.\<close>

definition cache_miss :: "geocode_cache \<Rightarrow> rat \<Rightarrow> string \<Rightarrow> bool" where
  "cache_miss cache now location =
    (case cache (py_lower (py_strip location)) of
       None \<Rightarrow> True
     | Some (lat, lon, tz, stamp) \<Rightarrow> GEOCODE_TTL \<le> now - stamp)"

text \<open>
  The body of a request provides no birthday: the JSON object has no such key or has
  \<^verbatim>\<open>null\<close> there, or the form has no such field.
\<close>

definition no_birthday :: "request \<Rightarrow> bool" where
  "no_birthday req =
    (if py_in ''application/json'' (content_type req)
     then (case json_body req of
             Inl err \<Rightarrow> False
           | Inr payload \<Rightarrow> payload ''birthday'' = None \<or> payload ''birthday'' = Some None)
     else (case form_body req of
             Inl err \<Rightarrow> False
           | Inr form \<Rightarrow> form ''birthday'' = None))"


section \<open>Sample inputs\<close>

text \<open>
  A birth on 15 June 1990 at 14:30 in Paris. The ephemeris of the sample gives twelve
  cusps and every body; the time text \<^verbatim>\<open>25:99\<close> is one \<^verbatim>\<open>datetime.fromisoformat\<close>
  refuses.
\<close>

definition sample_bday :: date where
  "sample_bday = \<lparr>year = 1990, month = 6, day = 15\<rparr>"

definition sample_lib :: astro_lib where
  "sample_lib =
    \<lparr>birth_julday = (\<lambda>bday birth_time tz_name.
        if birth_time = ''25:99'' then Inl (Exception ''Invalid isoformat string'')
        else Inr 2448058),
     swe_houses = (\<lambda>jd lat lon.
        Inr ([15, 45, 75, 105, 135, 165, 195, 225, 255, 285, 315, 345], [123.47])),
     swe_calc_ut = (\<lambda>jd body. Inr (of_nat body * 33 + 1 / 3))\<rparr>"

text \<open>The same ephemeris giving three cusps only, and one that finds the Sun and Mercury and
  nothing else.\<close>

definition short_lib :: astro_lib where
  "short_lib = sample_lib\<lparr>swe_houses := (\<lambda>jd lat lon. Inr ([15, 45, 75], [123.47]))\<rparr>"

definition sun_mercury_lib :: astro_lib where
  "sun_mercury_lib =
    sample_lib\<lparr>swe_houses := (\<lambda>jd lat lon. Inl (Exception ''swe error'')),
               swe_calc_ut := (\<lambda>jd body. if body = 0 then Inr 10
                                          else if body = 2 then Inr 100
                                          else Inl (Exception ''swe error''))\<rparr>"

text \<open>An ephemeris that fails on every call.\<close>

definition failing_lib :: astro_lib where
  "failing_lib =
    sample_lib\<lparr>swe_houses := (\<lambda>jd lat lon. Inl (Exception ''swe error'')),
               swe_calc_ut := (\<lambda>jd body. Inl (Exception ''swe error''))\<rparr>"

text \<open>
  A server without a key for the hosted model, a geocoder that finds the place and an
  astronomy service that is down; 6 February 2027 as today.
\<close>

definition sample_env :: env where
  "sample_env =
    \<lparr>date_fromisoformat = (\<lambda>s.
        if s = ''1990-06-15'' then Inr sample_bday
        else Inl (Exception ''Invalid isoformat string'')),
     geo = \<lparr>nominatim_get = (\<lambda>q. Inr \<lparr>status_code = 200, json = Inr [Inr (48.85, 2.35)]\<rparr>),
            timezone_at = (\<lambda>lat lon. Inr (Some ''Europe/Paris''))\<rparr>,
     swe = sample_lib,
     open_meteo_get = (\<lambda>lat lon. Inl (Exception ''connection refused'')),
     openai_client = None,
     random_seed = (\<lambda>s k. length s + k),
     time_time = 1800000000,
     seed_time = ''1800000000.5'',
     utcnow = \<lparr>ordinal = 740018, hour = 9, minute = 30, second = 0, microsecond = 0\<rparr>\<rparr>"

text \<open>The same server with a hosted model that fails for a reason other than quota.\<close>

definition broken_model_env :: env where
  "broken_model_env = sample_env\<lparr>openai_client := Some (\<lambda>p. Inl ''Connection reset by peer'')\<rparr>"

text \<open>The same server when the geocoding request times out, and when it is answered 503.\<close>

definition timeout_env :: env where
  "timeout_env =
    sample_env\<lparr>geo := \<lparr>nominatim_get = (\<lambda>q. Inl (Exception ''timed out'')),
                         timezone_at = (\<lambda>lat lon. Inr None)\<rparr>\<rparr>"

definition unavailable_env :: env where
  "unavailable_env =
    sample_env\<lparr>geo := \<lparr>nominatim_get = (\<lambda>q. Inr \<lparr>status_code = 503, json = Inr []\<rparr>),
                         timezone_at = (\<lambda>lat lon. Inr None)\<rparr>\<rparr>"

definition sample_input :: birth_input where
  "sample_input =
    \<lparr>in_name = Some ''Alex'', in_birthday = Some ''1990-06-15'',
     in_birth_time = Some ''14:30'', in_birth_location = Some ''Paris, France'',
     in_tone = Some ''funny''\<rparr>"

definition sample_request :: request where
  "sample_request =
    \<lparr>content_type = ''application/json'',
     json_body = Inr [''name'' \<mapsto> Some ''Alex'', ''birthday'' \<mapsto> Some ''1990-06-15'',
                      ''birth_time'' \<mapsto> Some ''14:30'',
                      ''birth_location'' \<mapsto> Some ''Paris, France'',
                      ''tone'' \<mapsto> Some ''funny''],
     form_body = Inl (Exception ''not a form''),
     accept = ''application/json'',
     x_requested_with = None\<rparr>"

text \<open>A request whose JSON body has neither birthday nor birth time.\<close>

definition empty_request :: request where
  "empty_request = sample_request\<lparr>json_body := Inr [''name'' \<mapsto> Some ''Alex'']\<rparr>"

definition sample_prompt :: prompt where
  "sample_prompt =
    \<lparr>p_name = Some ''Alex'', p_sign = ''gemini'', p_bday = sample_bday,
     p_birth_time = ''14:30'', p_birth_location = ''Paris, France'',
     p_tone = Some ''funny'', p_natal_summary = None, p_astronomy = []\<rparr>"

text \<open>The sample request with a birthday that is no date.\<close>

definition malformed_request :: request where
  "malformed_request =
    sample_request\<lparr>json_body := Inr [''birthday'' \<mapsto> Some ''not-a-date'',
                                        ''birth_time'' \<mapsto> Some ''14:30'',
                                        ''birth_location'' \<mapsto> Some ''Paris, France'']\<rparr>"


section \<open>Properties of the zodiac classifier\<close>

lemma zodiac_sign_tropical:
  assumes "valid_month_day m d"
  shows "zodiac_sign m d = tropical_sign m d"
proof -
  from assms have "m = 1 \<or> m = 2 \<or> m = 3 \<or> m = 4 \<or> m = 5 \<or> m = 6 \<or> m = 7
      \<or> m = 8 \<or> m = 9 \<or> m = 10 \<or> m = 11 \<or> m = 12"
    unfolding valid_month_day_def by arith
  then show ?thesis
    by (elim disjE) (simp_all add: tropical_sign_def sign_cutoffs_def)
qed

lemma zodiac_sign_is_sign: "zodiac_sign m d \<in> set sign_names"
  by (simp add: sign_names_def sign_cutoffs_def)

lemma sign_names_distinct: "distinct sign_names \<and> length sign_names = 12"
  by (simp add: sign_names_def sign_cutoffs_def)

lemma zodiac_sign_cutoffs:
  "list_all (\<lambda>(cm, cd, s). zodiac_sign cm cd = s \<and> zodiac_sign cm (cd - 1) \<noteq> s) sign_cutoffs"
  by (simp add: sign_cutoffs_def)

text \<open>
  C6. For every valid calendar pair (month 1..12, day valid for the month) the classifier
  returns the sign given by the fixed tropical cutoffs, a cutoff day belonging to the
  later sign: the result is one of the twelve distinct sign names, on each of the twelve
  cutoff days it is the sign that starts there and on the day before it is another one,
  20 March is Pisces and 21 March is Aries.
\<close>

theorem zodiac_sign_partition:
  assumes "valid_month_day m d"
  shows "zodiac_sign m d = tropical_sign m d
    \<and> zodiac_sign m d \<in> set sign_names
    \<and> distinct sign_names \<and> length sign_names = 12
    \<and> list_all (\<lambda>(cm, cd, s). zodiac_sign cm cd = s \<and> zodiac_sign cm (cd - 1) \<noteq> s) sign_cutoffs
    \<and> zodiac_sign 3 20 = ''pisces'' \<and> zodiac_sign 3 21 = ''aries''"
proof -
  have "zodiac_sign 3 20 = ''pisces'' \<and> zodiac_sign 3 21 = ''aries''" by simp
  with zodiac_sign_tropical [OF assms] zodiac_sign_is_sign [of m d] sign_names_distinct
    zodiac_sign_cutoffs
  show ?thesis by blast
qed

theorem zodiac_sign_partition_witness:
  "valid_month_day 2 29 \<and> zodiac_sign 2 29 = ''pisces'' \<and> tropical_sign 2 29 = ''pisces''
    \<and> zodiac_sign 2 29 \<in> set sign_names"
proof -
  have v: "valid_month_day 2 29" by (simp add: valid_month_day_def days_in_month_def)
  have z: "zodiac_sign 2 29 = ''pisces''" by simp
  from zodiac_sign_partition [OF v]
  have e: "zodiac_sign 2 29 = tropical_sign 2 29" and i: "zodiac_sign 2 29 \<in> set sign_names"
    by blast+
  from v z e i show ?thesis by (simp del: zodiac_sign.simps)
qed


section \<open>Properties of the local moon phase\<close>

lemma py_mod_frac: "0 < y \<Longrightarrow> py_mod x y / y = frac (x / y)"
  by (simp add: py_mod_def frac_def diff_divide_distrib)

lemma py_round_unit:
  assumes "0 \<le> x" "x < 1"
  shows "0 \<le> py_round x 3 \<and> py_round x 3 \<le> 1"
proof -
  define f where "f = \<lfloor>x * 1000\<rfloor>"
  have f0: "0 \<le> f" using assms by (simp add: f_def)
  have "x * 1000 < 1000" using assms by simp
  then have "f < 1000" unfolding f_def by (simp add: floor_less_iff)
  then have f1: "f + 1 \<le> 1000" by simp
  have a: "(0::rat) \<le> of_int f" using f0 by simp
  have b: "(of_int (f + 1) :: rat) \<le> 1000" using f1 by (metis of_int_le_iff of_int_numeral)
  have c: "(of_int f :: rat) \<le> 1000" using b by simp
  show ?thesis
    using a b c unfolding py_round_def Let_def f_def[symmetric]
    by (simp add: f_def[symmetric] divide_le_eq_1)
qed

lemma py_round_nearest:
  "\<bar>py_round x n - x\<bar> \<le> 1 / (2 * 10 ^ n) \<and> py_round x n * 10 ^ n \<in> \<int>"
proof -
  define s where "s = x * 10 ^ n"
  define f where "f = \<lfloor>s\<rfloor>"
  define k where "k = (if s - of_int f < 1 / 2 then f else if 1 / 2 < s - of_int f then f + 1
      else if even f then f else f + 1)"
  have p: "py_round x n = of_int k / 10 ^ n"
    by (simp add: py_round_def Let_def s_def f_def k_def)
  have fl: "of_int f \<le> s" "s < of_int f + 1" unfolding f_def by linarith+
  have d: "\<bar>of_int k - s\<bar> \<le> 1 / 2"
    unfolding k_def using fl by (simp split: if_splits)
  have "py_round x n - x = (of_int k - s) / 10 ^ n"
    by (simp add: p s_def field_simps)
  then have "\<bar>py_round x n - x\<bar> = \<bar>of_int k - s\<bar> / 10 ^ n" by simp
  also have "\<dots> \<le> (1 / 2) / 10 ^ n" by (rule divide_right_mono [OF d]) simp
  finally have a: "\<bar>py_round x n - x\<bar> \<le> 1 / (2 * 10 ^ n)" by simp
  have "py_round x n * 10 ^ n = of_int k" by (simp add: p)
  then have "py_round x n * 10 ^ n \<in> \<int>" by simp
  with a show ?thesis by blast
qed

lemma moon_days_elapsed: "moon_days now = of_int (ordinal now - 730125) + (12 - (18 + 14 / 60)) / 24"
  by (simp add: moon_days_def total_seconds_between_def ref_def Let_def field_simps)

lemma moon_phase_frac:
  "moon_phase (get_local_moon_phase now) = py_round (frac (moon_days now / synodic)) 3"
proof -
  have "0 < synodic" by (simp add: synodic_def)
  then show ?thesis by (simp add: get_local_moon_phase_def Let_def py_mod_frac)
qed

lemma moon_phase_range:
  "0 \<le> moon_phase (get_local_moon_phase now) \<and> moon_phase (get_local_moon_phase now) \<le> 1"
  unfolding moon_phase_frac by (rule py_round_unit) (simp_all add: frac_lt_1)

lemma moon_same_day:
  "get_local_moon_phase (now\<lparr>hour := h, minute := mi, second := s, microsecond := us\<rparr>)
    = get_local_moon_phase now"
  by (simp add: get_local_moon_phase_def moon_days_def Let_def)

text \<open>
  C4, as the code has it. For every UTC instant the phase is the fractional part of
  (days elapsed since 2000-01-06 18:14, the time of day replaced by 12:00) divided by
  29.53058867, rounded to 3 decimals (a multiple of 0.001 at most 0.0005 away); it
  depends on the day only; and it lies in the closed interval from 0 to 1. The value 1 is reached: rounding takes a fractional part
  of 0.9995 or more up to 1.0.
\<close>

theorem moon_phase_value:
  "moon_phase (get_local_moon_phase now) = py_round (frac (moon_days now / synodic)) 3
   \<and> moon_days now = of_int (ordinal now - 730125) + (12 - (18 + 14 / 60)) / 24
   \<and> synodic = 29.53058867
   \<and> get_local_moon_phase (now\<lparr>hour := h, minute := mi, second := s, microsecond := us\<rparr>)
       = get_local_moon_phase now
   \<and> \<bar>moon_phase (get_local_moon_phase now) - frac (moon_days now / synodic)\<bar> \<le> 1 / 2000
   \<and> moon_phase (get_local_moon_phase now) * 1000 \<in> \<int>
   \<and> 0 \<le> moon_phase (get_local_moon_phase now)
   \<and> moon_phase (get_local_moon_phase now) \<le> 1"
proof -
  have "synodic = 29.53058867" by (simp add: synodic_def)
  moreover have "\<bar>moon_phase (get_local_moon_phase now) - frac (moon_days now / synodic)\<bar>
        \<le> 1 / 2000
      \<and> moon_phase (get_local_moon_phase now) * 1000 \<in> \<int>"
    unfolding moon_phase_frac
    using py_round_nearest [of "frac (moon_days now / synodic)" 3] by simp
  ultimately show ?thesis
    using moon_phase_frac [of now] moon_days_elapsed [of now]
      moon_same_day [where now = now and h = h and mi = mi and s = s and us = us]
      moon_phase_range [of now]
    by blast
qed

text \<open>
  C4 as stated fails on 6 February 2027 (ordinal 740018): the fractional part is
  0.99976..., which rounds to 1.0, outside the half-open interval.
\<close>

theorem moon_phase_reaches_one:
  "\<not> moon_phase (get_local_moon_phase
        \<lparr>ordinal = 740018, hour = 9, minute = 30, second = 0, microsecond = 0\<rparr>) < 1"
  by code_simp

lemma moon_title_bucket:
  assumes "0 \<le> p" "p < 1"
  shows "moon_title p = phase_names ! nat (\<lfloor>(p + 1 / 16) * 8\<rfloor> mod 8)"
proof -
  define k where "k = \<lfloor>(p + 1 / 16) * 8\<rfloor>"
  have "of_int k \<le> (p + 1 / 16) * 8" and "(p + 1 / 16) * 8 < of_int k + 1"
    unfolding k_def by linarith+
  then have lo: "of_int k \<le> 8 * p + 1 / 2" and hi: "8 * p + 1 / 2 < of_int k + 1"
    by (simp_all add: algebra_simps)
  have "(of_int k :: rat) < 9" using hi lo assms by linarith
  then have k8: "k \<le> 8" by linarith
  have "(-1 :: rat) < of_int k" using hi assms by linarith
  then have k0: "0 \<le> k" by linarith
  from k0 k8 have "k = 0 \<or> k = 1 \<or> k = 2 \<or> k = 3 \<or> k = 4 \<or> k = 5 \<or> k = 6 \<or> k = 7 \<or> k = 8"
    by arith
  then show ?thesis
    unfolding k_def[symmetric]
    using lo hi by (elim disjE) (simp_all add: moon_title_def phase_names_def)
qed

lemma moon_title_is_name: "moon_title p \<in> set phase_names"
  by (simp add: phase_names_def moon_title_def)

lemma phase_names_distinct: "distinct phase_names \<and> length phase_names = 8"
  by (simp add: phase_names_def)

text \<open>
  C5. The eight names partition \<open>[0, 1)\<close>: a phase \<open>p\<close> in that interval gets the name
  number \<open>\<lfloor>(p + 1/16) * 8\<rfloor> mod 8\<close> of the cycle, that is, eight buckets of width 1/8
  centred on the multiples of 1/8, the first wrapping around the end of the interval.
  The names are eight different ones, so every phase has exactly one; 0.0 and 0.999 are
  both New Moon.
\<close>

theorem moon_title_partition:
  assumes "0 \<le> p" "p < 1"
  shows "moon_title p = phase_names ! nat (\<lfloor>(p + 1 / 16) * 8\<rfloor> mod 8)
    \<and> moon_title p \<in> set phase_names
    \<and> distinct phase_names \<and> length phase_names = 8
    \<and> moon_title 0 = ''New Moon'' \<and> moon_title 0.999 = ''New Moon''"
proof -
  have "moon_title 0 = ''New Moon'' \<and> moon_title 0.999 = ''New Moon''"
    by (simp add: moon_title_def)
  with moon_title_bucket [OF assms] moon_title_is_name [of p] phase_names_distinct
  show ?thesis by blast
qed

theorem moon_title_partition_witness:
  "(0::rat) \<le> 0.94 \<and> (0.94::rat) < 1 \<and> moon_title 0.94 = ''New Moon''
    \<and> phase_names ! nat (\<lfloor>((0.94::rat) + 1 / 16) * 8\<rfloor> mod 8) = ''New Moon''"
proof -
  have a: "(0::rat) \<le> 0.94" and b: "(0.94::rat) < 1" by simp_all
  have t: "moon_title 0.94 = ''New Moon''" by (simp add: moon_title_def)
  from moon_title_partition [OF a b]
  have e: "moon_title 0.94 = phase_names ! nat (\<lfloor>((0.94::rat) + 1 / 16) * 8\<rfloor> mod 8)"
    by blast
  from a b t e show ?thesis by simp
qed


section \<open>The sample inputs, evaluated\<close>

lemma sample_read_input: "read_input sample_request = Inr sample_input"
  by (simp add: read_input_def sample_request_def sample_input_def json_get_def
      json_get_default_def)

lemma sample_truthy:
  "truthy (in_birth_time sample_input)" "truthy (in_birth_location sample_input)"
  by (simp_all add: truthy_def sample_input_def)

lemma sample_location: "str_opt (in_birth_location sample_input) = ''Paris, France''"
  by (simp add: str_opt_def sample_input_def)

lemma sample_parse_birthday:
  "date_fromisoformat e = date_fromisoformat sample_env
    \<Longrightarrow> parse_birthday e (in_birthday sample_input) = Inr sample_bday"
  by (simp add: parse_birthday_def fromisoformat_arg_def sample_env_def sample_input_def)

lemma sample_geocode:
  "fst (geocode_location (geo sample_env) Map.empty now ''Paris, France'')
     = Inr (48.85, 2.35, ''Europe/Paris'')"
  by (simp add: geocode_location_def sample_env_def Let_def)

lemma timeout_geocode:
  "fst (geocode_location (geo timeout_env) Map.empty now ''Paris, France'')
     = Inl (Exception ''timed out'')"
  by (simp add: geocode_location_def sample_env_def timeout_env_def Let_def)


section \<open>Properties of the string functions\<close>

lemma py_in_sublist: "py_in needle hay \<longleftrightarrow> sublist needle hay"
  by (induction hay) (simp_all add: sublist_Cons_right)

lemma sublist_map_conv:
  "sublist ys (map f xs) \<longleftrightarrow> (\<exists>piece. sublist piece xs \<and> map f piece = ys)"
proof
  assume "sublist ys (map f xs)"
  then obtain ps ss where "map f xs = ps @ ys @ ss" by (auto simp: sublist_def)
  then obtain a r where x: "xs = a @ r" and "ys @ ss = map f r"
    unfolding map_eq_append_conv by blast
  then obtain b c where r: "r = b @ c" and b: "ys = map f b"
    unfolding append_eq_map_conv by blast
  have "sublist b xs" unfolding x r by simp
  with b show "\<exists>piece. sublist piece xs \<and> map f piece = ys" by blast
next
  assume "\<exists>piece. sublist piece xs \<and> map f piece = ys"
  then show "sublist ys (map f xs)" using map_mono_sublist by blast
qed

lemma ci_contains_lower: "ci_contains needle hay \<longleftrightarrow> py_in (py_lower needle) (py_lower hay)"
  unfolding ci_contains_def py_in_sublist
  by (auto simp: py_lower_def sublist_map_conv)

lemma of_char_lower:
  "(of_char (lower_char c) :: nat) =
    (if 65 \<le> (of_char c :: nat) \<and> (of_char c :: nat) \<le> 90 then of_char c + 32 else of_char c)"
  by (simp add: lower_char_def)

lemma lower_needles: "py_lower ''serious'' = ''serious''" "py_lower ''inspir'' = ''inspir''"
  "py_lower ''quota'' = ''quota''"  "py_lower ''not configured'' = ''not configured''"
  "py_lower ''openai'' = ''openai''" "py_lower ''429'' = ''429''"
  "py_lower ''insufficient_quota'' = ''insufficient_quota''"
  by (simp_all add: py_lower_def lower_char_def)

lemma dropWhile_all: "(\<forall>x \<in> set (dropWhile P xs). P x) \<longleftrightarrow> (\<forall>x \<in> set xs. P x)"
proof
  assume a: "\<forall>x \<in> set (dropWhile P xs). P x"
  have "dropWhile P xs = []"
  proof (rule ccontr)
    assume n: "dropWhile P xs \<noteq> []"
    then have "\<not> P (hd (dropWhile P xs))" by (rule hd_dropWhile)
    moreover have "hd (dropWhile P xs) \<in> set (dropWhile P xs)" using n by simp
    ultimately show False using a by blast
  qed
  then show "\<forall>x \<in> set xs. P x" by (simp add: dropWhile_eq_Nil_conv)
next
  assume "\<forall>x \<in> set xs. P x"
  then show "\<forall>x \<in> set (dropWhile P xs). P x" using set_dropWhileD by fastforce
qed

lemma py_strip_empty: "py_strip f = [] \<longleftrightarrow> list_all is_space f"
proof -
  have "py_strip f = [] \<longleftrightarrow> dropWhile is_space (rev (dropWhile is_space f)) = []"
    by (simp add: py_strip_def)
  also have "\<dots> \<longleftrightarrow> (\<forall>x \<in> set (dropWhile is_space f). is_space x)"
    by (simp add: dropWhile_eq_Nil_conv)
  also have "\<dots> \<longleftrightarrow> list_all is_space f"
    by (simp add: dropWhile_all list_all_iff)
  finally show ?thesis .
qed

lemma py_split_nonempty: "py_split c s \<noteq> []"
  by (induction s) (auto split: list.splits)

lemma py_split_join: "py_join [c] (py_split c s) = s"
proof (induction s)
  case Nil then show ?case by simp
next
  case (Cons x xs)
  obtain w ws where sp: "py_split c xs = w # ws" using py_split_nonempty [of c xs] by (cases "py_split c xs") auto
  show ?case using Cons sp by (cases ws) auto
qed

lemma py_split_no_sep: "seg \<in> set (py_split c s) \<Longrightarrow> c \<notin> set seg"
  by (induction s arbitrary: seg) (auto split: list.splits if_splits)


section \<open>Properties of the local fallback generator\<close>

lemma tone_has_ci:
  assumes "py_lower needle = needle" "needle \<noteq> []"
  shows "tone_has needle tone \<longleftrightarrow> (case tone of None \<Rightarrow> False | Some t \<Rightarrow> ci_contains needle t)"
proof (cases tone)
  case None
  then show ?thesis by (simp add: tone_has_def)
next
  case (Some t)
  show ?thesis
  proof (cases "t = []")
    case True
    with Some assms show ?thesis by (simp add: tone_has_def ci_contains_lower py_lower_def)
  next
    case False
    with Some assms show ?thesis by (simp add: tone_has_def ci_contains_lower)
  qed
qed

lemma tone_templates_bucket:
  "tone_templates tone display sign transit chart_feature
    = bucket_templates (tone_bucket tone) display sign transit chart_feature"
proof -
  have s: "tone_has ''serious'' tone \<longleftrightarrow> (case tone of None \<Rightarrow> False | Some t \<Rightarrow> ci_contains ''serious'' t)"
    by (rule tone_has_ci) (simp_all add: lower_needles)
  have i: "tone_has ''inspir'' tone \<longleftrightarrow> (case tone of None \<Rightarrow> False | Some t \<Rightarrow> ci_contains ''inspir'' t)"
    by (rule tone_has_ci) (simp_all add: lower_needles)
  show ?thesis
    unfolding tone_templates_def s i
    by (cases tone) (simp_all add: bucket_templates_def tone_bucket_def)
qed

lemma bucket_first_opening:
  "hd (fst (bucket_templates b display sign transit chart_feature)) =
    display @ (case b of Serious \<Rightarrow> ''Today, '' @ sign @ '' energy is shaped by '' @ transit
       @ '', especially as it interacts with your '' @ chart_feature @ ''.''
     | Inspirational \<Rightarrow> ''The stars nudge a quiet confidence in your '' @ sign @ '' nature today, as '' @ transit @ '' highlights your '' @ chart_feature @ ''.''
     | Playful \<Rightarrow> ''Your '' @ sign @ '' vibe today is playful and a little impatient, with '' @ transit @ '' stirring your '' @ chart_feature @ ''.'')"
  by (cases b) (simp_all add: bucket_templates_def serious_openings_def inspirational_openings_def playful_openings_def)

lemma bucket_templates_inj:
  assumes "bucket_templates b display sign transit chart_feature
         = bucket_templates b' display sign transit chart_feature"
  shows "b = b'"
proof -
  from assms have "hd (fst (bucket_templates b display sign transit chart_feature))
     = hd (fst (bucket_templates b' display sign transit chart_feature))" by simp
  then show ?thesis
    unfolding bucket_first_opening by (cases b; cases b') simp_all
qed




lemma chart_features_segments: "chart_features natal = natal_segments natal"
proof (cases natal)
  case None
  then show ?thesis by (simp add: chart_features_def natal_segments_def truthy_def)
next
  case (Some s)
  show ?thesis
  proof (cases "s = []")
    case True
    with Some show ?thesis by (simp add: chart_features_def natal_segments_def truthy_def)
  next
    case False
    with Some show ?thesis
      by (simp add: chart_features_def natal_segments_def truthy_def str_opt_def py_strip_empty)
  qed
qed

lemma choice_index: "fst (choice g seq) = seq ! (g 0 mod length seq)"
  by (simp add: choice_def randbelow_def)

lemma choice_in_set: "seq \<noteq> [] \<Longrightarrow> fst (choice g seq) \<in> set seq"
  by (simp add: choice_index)

lemma pick_chart_feature_value:
  "fst (pick_chart_feature g sign natal) =
    (if natal_segments natal = [] then ''Ascendant in '' @ sign
     else natal_segments natal ! (g 0 mod length (natal_segments natal)))"
  by (simp add: pick_chart_feature_def chart_features_segments choice_index)

lemma pick_chart_feature_in_set:
  "fst (pick_chart_feature g sign natal) \<in>
     set (if natal_segments natal = [] then [''Ascendant in '' @ sign] else natal_segments natal)"
  by (simp add: pick_chart_feature_value)

lemma bucket_templates_nonempty:
  "fst (bucket_templates b d s t c) \<noteq> [] \<and> fst (snd (bucket_templates b d s t c)) \<noteq> []
    \<and> snd (snd (bucket_templates b d s t c)) \<noteq> []"
  by (cases b)
    (simp_all add: bucket_templates_def serious_openings_def serious_advices_def serious_whys_def
      inspirational_openings_def inspirational_advices_def inspirational_whys_def
      playful_openings_def playful_advices_def playful_whys_def)

lemma fallback_texts_intro:
  assumes "transit \<in> set transit_keywords"
    and "cf \<in> set (if natal_segments natal = [] then [''Ascendant in '' @ sign] else natal_segments natal)"
    and "opening \<in> set (fst (bucket_templates b (if truthy name then str_opt name @ '', '' else []) sign transit cf))"
    and "advice \<in> set (fst (snd (bucket_templates b (if truthy name then str_opt name @ '', '' else []) sign transit cf)))"
    and "why \<in> set (snd (snd (bucket_templates b (if truthy name then str_opt name @ '', '' else []) sign transit cf)))"
  shows "opening @ '' '' @ advice @ (if truthy natal then '' ('' @ str_opt natal @ '')'' else []) @ '' '' @ why
      \<in> set (fallback_texts b name sign natal)"
  unfolding fallback_texts_def set_concat set_map
  using assms by (auto simp: split_def intro!: bexI)

lemma local_fallback_in_texts:
  "local_fallback g name sign tone natal \<in> set (fallback_texts (tone_bucket tone) name sign natal)"
proof -
  define display where "display = (if truthy name then str_opt name @ '', '' else [])"
  define transit where "transit = fst (choice g transit_keywords)"
  define g1 where "g1 = snd (choice g transit_keywords)"
  define cf where "cf = fst (pick_chart_feature g1 sign natal)"
  define g2 where "g2 = snd (pick_chart_feature g1 sign natal)"
  define tpl where "tpl = bucket_templates (tone_bucket tone) display sign transit cf"
  define opn where "opn = fst (choice g2 (fst tpl))"
  define g3 where "g3 = snd (choice g2 (fst tpl))"
  define advice where "advice = fst (choice g3 (fst (snd tpl)))"
  define g4 where "g4 = snd (choice g3 (fst (snd tpl)))"
  define why where "why = fst (choice g4 (snd (snd tpl)))"
  have lf: "local_fallback g name sign tone natal =
      opn @ '' '' @ advice @ (if truthy natal then '' ('' @ str_opt natal @ '')'' else []) @ '' '' @ why"
    unfolding local_fallback_def Let_def split_def tone_templates_bucket
      display_def transit_def g1_def cf_def g2_def tpl_def opn_def g3_def advice_def g4_def why_def
    by simp
  have t: "transit \<in> set transit_keywords"
    unfolding transit_def by (rule choice_in_set) (simp add: transit_keywords_def)
  have c: "cf \<in> set (if natal_segments natal = [] then [''Ascendant in '' @ sign] else natal_segments natal)"
    unfolding cf_def by (rule pick_chart_feature_in_set)
  have ne: "fst tpl \<noteq> []" "fst (snd tpl) \<noteq> []" "snd (snd tpl) \<noteq> []"
    unfolding tpl_def using bucket_templates_nonempty by blast+
  have o: "opn \<in> set (fst tpl)" unfolding opn_def by (rule choice_in_set [OF ne(1)])
  have a: "advice \<in> set (fst (snd tpl))" unfolding advice_def by (rule choice_in_set [OF ne(2)])
  have w: "why \<in> set (snd (snd tpl))" unfolding why_def by (rule choice_in_set [OF ne(3)])
  show ?thesis
    unfolding lf using fallback_texts_intro [OF t c o [unfolded tpl_def display_def] a [unfolded tpl_def display_def] w [unfolded tpl_def display_def]]
    by simp
qed


text \<open>
  C1. For every tone, the tone absent included, the fallback takes its templates from
  exactly one of three groups, named by a case-insensitive search in this order: the
  serious group when the tone contains \<^verbatim>\<open>serious\<close>, else the inspirational group when it
  contains \<^verbatim>\<open>inspir\<close>, else the playful group. The groups differ, so the group is
  determined; the text returned is made of an opening, an advice and a why of that
  group; \<^verbatim>\<open>Serious Thoughts\<close> selects the serious group and no tone the playful one.
\<close>

theorem tone_selects_one_bucket:
  "tone_templates tone display sign transit chart_feature
     = bucket_templates (tone_bucket tone) display sign transit chart_feature
   \<and> (\<forall>b. bucket_templates b display sign transit chart_feature
            = tone_templates tone display sign transit chart_feature
          \<longrightarrow> b = tone_bucket tone)
   \<and> local_fallback g name sign tone natal
        \<in> set (fallback_texts (tone_bucket tone) name sign natal)
   \<and> tone_bucket (Some ''Serious Thoughts'') = Serious
   \<and> tone_bucket None = Playful"
proof -
  have a: "tone_bucket (Some ''Serious Thoughts'') = Serious"
    unfolding tone_bucket_def ci_contains_lower by code_simp
  have b: "tone_bucket None = Playful" by (simp add: tone_bucket_def)
  have c: "\<forall>b. bucket_templates b display sign transit chart_feature
            = tone_templates tone display sign transit chart_feature
          \<longrightarrow> b = tone_bucket tone"
    unfolding tone_templates_bucket using bucket_templates_inj by blast
  from a b c tone_templates_bucket [of tone display sign transit chart_feature]
    local_fallback_in_texts [of g name sign tone natal]
  show ?thesis by blast
qed

theorem tone_selects_one_bucket_witness:
  "tone_bucket (Some ''Seriously INSPIRED'') = Serious
   \<and> tone_templates (Some ''Seriously INSPIRED'') ''Alex, '' ''leo'' ''Venus trine Mars''
         ''Ascendant in leo''
       = bucket_templates Serious ''Alex, '' ''leo'' ''Venus trine Mars'' ''Ascendant in leo''
   \<and> bucket_templates Serious ''Alex, '' ''leo'' ''Venus trine Mars'' ''Ascendant in leo''
       \<noteq> bucket_templates Playful ''Alex, '' ''leo'' ''Venus trine Mars'' ''Ascendant in leo''"
proof -
  have a: "tone_bucket (Some ''Seriously INSPIRED'') = Serious"
    unfolding tone_bucket_def ci_contains_lower by code_simp
  note t = tone_selects_one_bucket [of "Some ''Seriously INSPIRED''" "''Alex, ''" "''leo''"
      "''Venus trine Mars''" "''Ascendant in leo''" "\<lambda>k. k" None None]
  from t have e: "tone_templates (Some ''Seriously INSPIRED'') ''Alex, '' ''leo''
      ''Venus trine Mars'' ''Ascendant in leo''
       = bucket_templates (tone_bucket (Some ''Seriously INSPIRED'')) ''Alex, '' ''leo''
           ''Venus trine Mars'' ''Ascendant in leo''"
    by blast
  from t have u: "bucket_templates Playful ''Alex, '' ''leo'' ''Venus trine Mars''
      ''Ascendant in leo''
       = tone_templates (Some ''Seriously INSPIRED'') ''Alex, '' ''leo'' ''Venus trine Mars''
           ''Ascendant in leo''
     \<longrightarrow> Playful = tone_bucket (Some ''Seriously INSPIRED'')"
    by blast
  have n: "bucket_templates Serious ''Alex, '' ''leo'' ''Venus trine Mars'' ''Ascendant in leo''
       \<noteq> bucket_templates Playful ''Alex, '' ''leo'' ''Venus trine Mars'' ''Ascendant in leo''"
    using u e unfolding a by auto
  from a e n show ?thesis unfolding a by blast
qed

text \<open>
  C2. For every natal summary the chart feature is drawn among the segments of the
  summary, the pieces between its semicolons with the white-space-only ones dropped
  (\<open>py_split\<close> gives the pieces: joined by semicolons they give the summary back, and no
  piece holds a semicolon). The segment taken is the one at the position the generator
  draws below the number of segments, each such position being as likely as any other
  by the contract of \<^verbatim>\<open>random.choice\<close>. When the summary is absent, empty or without
  such a segment, the chart feature is \<^verbatim>\<open>Ascendant in \<close> followed by the sign.
\<close>

theorem chart_feature_choice:
  "chart_features natal = natal_segments natal
   \<and> fst (pick_chart_feature g sign natal)
       = (if natal_segments natal = [] then ''Ascendant in '' @ sign
          else natal_segments natal ! (g 0 mod length (natal_segments natal)))
   \<and> (g 0 < length (natal_segments natal)
        \<longrightarrow> fst (pick_chart_feature g sign natal) = natal_segments natal ! g 0)
   \<and> (natal_segments natal \<noteq> []
        \<longrightarrow> fst (pick_chart_feature g sign natal) \<in> set (natal_segments natal))
   \<and> (natal = None \<or> natal = Some []
        \<longrightarrow> fst (pick_chart_feature g sign natal) = ''Ascendant in '' @ sign)
   \<and> (\<forall>s. natal = Some s
        \<longrightarrow> py_join '';'' (py_split CHR '';'' s) = s
            \<and> (\<forall>seg \<in> set (py_split CHR '';'' s). CHR '';'' \<notin> set seg))"
proof -
  have v: "fst (pick_chart_feature g sign natal)
       = (if natal_segments natal = [] then ''Ascendant in '' @ sign
          else natal_segments natal ! (g 0 mod length (natal_segments natal)))"
    by (rule pick_chart_feature_value)
  have i: "g 0 < length (natal_segments natal)
        \<longrightarrow> fst (pick_chart_feature g sign natal) = natal_segments natal ! g 0"
    unfolding v by auto
  have m: "natal_segments natal \<noteq> []
        \<longrightarrow> fst (pick_chart_feature g sign natal) \<in> set (natal_segments natal)"
    unfolding v by simp
  have d: "natal = None \<or> natal = Some []
        \<longrightarrow> fst (pick_chart_feature g sign natal) = ''Ascendant in '' @ sign"
    unfolding v by (auto simp: natal_segments_def)
  have s: "\<forall>s. natal = Some s
        \<longrightarrow> py_join '';'' (py_split CHR '';'' s) = s
            \<and> (\<forall>seg \<in> set (py_split CHR '';'' s). CHR '';'' \<notin> set seg)"
    using py_split_join [of "CHR '';''"] py_split_no_sep [of _ "CHR '';''"] by blast
  from chart_features_segments [of natal] v i m d s show ?thesis by blast
qed

theorem chart_feature_choice_witness:
  "natal_segments (Some ''Ascendant: leo; ;Planets: Sun in leo'')
      = [''Ascendant: leo'', ''Planets: Sun in leo'']
   \<and> fst (pick_chart_feature (\<lambda>k. 1) ''leo'' (Some ''Ascendant: leo; ;Planets: Sun in leo''))
      = ''Planets: Sun in leo''
   \<and> fst (pick_chart_feature (\<lambda>k. 1) ''leo'' (Some '' ; '')) = ''Ascendant in leo''"
proof -
  have a: "natal_segments (Some ''Ascendant: leo; ;Planets: Sun in leo'')
      = [''Ascendant: leo'', ''Planets: Sun in leo'']"
    by code_simp
  have b: "natal_segments (Some '' ; '') = []" by code_simp
  note t = chart_feature_choice [of "Some ''Ascendant: leo; ;Planets: Sun in leo''" "\<lambda>k. 1" "''leo''"]
  note u = chart_feature_choice [of "Some '' ; ''" "\<lambda>k. 1" "''leo''"]
  from t have "fst (pick_chart_feature (\<lambda>k. 1) ''leo'' (Some ''Ascendant: leo; ;Planets: Sun in leo''))
      = ''Planets: Sun in leo''"
    unfolding a by simp
  moreover from u have "fst (pick_chart_feature (\<lambda>k. 1) ''leo'' (Some '' ; '')) = ''Ascendant in leo''"
    unfolding b by simp
  ultimately show ?thesis using a by blast
qed


section \<open>Properties of the generation step\<close>

lemma lower_char_fixed:
  assumes "(of_char d :: nat) < 65"
  shows "lower_char c = d \<longleftrightarrow> c = d"
proof (cases "65 \<le> (of_char c :: nat) \<and> (of_char c :: nat) \<le> 90")
  case True
  then have "(of_char (lower_char c) :: nat) = of_char c + 32" by (simp add: of_char_lower)
  with True assms have "(of_char (lower_char c) :: nat) \<noteq> of_char d" by simp
  moreover from True assms have "(of_char c :: nat) \<noteq> of_char d" by linarith
  ultimately show ?thesis by auto
next
  case False
  then show ?thesis by (auto simp: lower_char_def)
qed

lemma py_lower_429: "py_lower piece = ''429'' \<longleftrightarrow> piece = ''429''"
  by (auto simp: py_lower_def map_eq_Cons_conv lower_char_fixed)

lemma py_in_429_lower: "py_in ''429'' (py_lower msg) \<longleftrightarrow> py_in ''429'' msg"
  unfolding py_in_sublist py_lower_def sublist_map_conv
  using py_lower_429 [unfolded py_lower_def] by auto

lemma quota_in_insufficient: "sublist ''quota'' ''insufficient_quota''"
  by code_simp

lemma py_in_insufficient:
  assumes "py_in ''insufficient_quota'' msg"
  shows "py_in ''quota'' (py_lower msg)"
proof -
  from assms have "sublist ''quota'' msg"
    unfolding py_in_sublist using quota_in_insufficient sublist_order.order_trans by blast
  then have "sublist (py_lower ''quota'') (py_lower msg)"
    unfolding py_lower_def by (rule map_mono_sublist)
  then show ?thesis by (simp add: py_in_sublist lower_needles)
qed

lemma py_in_insufficient_lower:
  assumes "py_in ''insufficient_quota'' (py_lower msg)"
  shows "py_in ''quota'' (py_lower msg)"
  using assms unfolding py_in_sublist using quota_in_insufficient sublist_order.order_trans by blast

lemma quota_like_spec: "quota_like msg \<longleftrightarrow> quota_or_config_error msg"
  unfolding quota_like_def quota_or_config_error_def fallback_needles_def
  using py_in_insufficient [of msg] py_in_insufficient_lower [of msg]
  by (auto simp: ci_contains_lower lower_needles py_in_429_lower)

lemma not_configured_is_quota_like: "quota_or_config_error ''OpenAI client not configured''"
  unfolding quota_like_spec [symmetric] quota_like_def by code_simp

lemma generate_spec:
  "generate e p name sign tone natal =
    (case primary_call e p of
       Inr text \<Rightarrow> Inr text
     | Inl msg \<Rightarrow>
        if quota_or_config_error msg
        then Inr (local_fallback (random_seed e (seed_source name sign tone natal (seed_time e)))
                    name sign tone natal)
        else Inl (HTTPException 502 (''OpenAI API error: '' @ msg)))"
  by (cases "primary_call e p") (simp_all add: generate_def quota_like_spec)

lemma generate_unconfigured:
  "openai_client e = None \<Longrightarrow> generate e p name sign tone natal =
      Inr (local_fallback (random_seed e (seed_source name sign tone natal (seed_time e)))
                    name sign tone natal)"
  by (simp add: generate_spec primary_call_def not_configured_is_quota_like)

lemma horoscope_after_input:
  assumes "read_input req = Inr inp" "parse_birthday e (in_birthday inp) = Inr bday"
    "truthy (in_birth_time inp)" "truthy (in_birth_location inp)"
  shows "horoscope e cache req =
    (let sign = zodiac_sign (month bday) (day bday);
         birth_time = str_opt (in_birth_time inp);
         birth_location = str_opt (in_birth_location inp);
         found = fst (geocode_location (geo e) cache (time_time e) birth_location);
         cache' = snd (geocode_location (geo e) cache (time_time e) birth_location)
     in case resolve_coords found of
          Inl err \<Rightarrow> (Inl err, cache')
        | Inr coords \<Rightarrow>
           (let ch = compute_chart e bday birth_time coords;
                p = \<lparr>p_name = in_name inp, p_sign = sign, p_bday = bday,
                     p_birth_time = birth_time, p_birth_location = birth_location,
                     p_tone = in_tone inp, p_natal_summary = natal_summary ch,
                     p_astronomy = astronomy_data ch\<rparr>
            in case generate e p (in_name inp) sign (in_tone inp) (natal_summary ch) of
                 Inl err \<Rightarrow> (Inl err, cache')
               | Inr generated \<Rightarrow> (Inr (respond req generated ch sign (in_name inp)), cache')))"
  unfolding horoscope_def using assms by (simp add: Let_def split_def del: zodiac_sign.simps)


lemma horoscope_generator_failure:
  assumes "read_input req = Inr inp" "parse_birthday e (in_birthday inp) = Inr bday"
    "truthy (in_birth_time inp)" "truthy (in_birth_location inp)"
    and geo: "resolve_coords (fst (geocode_location (geo e) cache (time_time e)
                (str_opt (in_birth_location inp)))) = Inr coords"
    and model: "openai_client e = Some (\<lambda>p. Inl msg)"
    and other: "\<not> quota_or_config_error msg"
  shows "fst (horoscope e cache req) = Inl (HTTPException 502 (''OpenAI API error: '' @ msg))"
  unfolding horoscope_after_input [OF assms(1-4)]
  using geo model other
  by (simp add: Let_def generate_spec primary_call_def del: zodiac_sign.simps)

text \<open>
  C3. The generation step returns the text of the hosted model when its call succeeds.
  When the call fails, the local fallback is used if and only if the text of the error
  contains, case ignored, one of \<^verbatim>\<open>quota\<close>, \<^verbatim>\<open>429\<close>, \<^verbatim>\<open>insufficient_quota\<close>,
  \<^verbatim>\<open>not configured\<close>, \<^verbatim>\<open>openai\<close>; any other failure becomes an \<open>HTTPException\<close> with
  status 502, which a request that got as far as the generation answers with. A server
  with no client configured fails with \<^verbatim>\<open>OpenAI client not configured\<close>, one of those
  texts, and so always uses the fallback.
\<close>

theorem fallback_iff_quota_error:
  "generate e p name sign tone natal =
    (case primary_call e p of
       Inr text \<Rightarrow> Inr text
     | Inl msg \<Rightarrow>
        if quota_or_config_error msg
        then Inr (local_fallback (random_seed e (seed_source name sign tone natal (seed_time e)))
                    name sign tone natal)
        else Inl (HTTPException 502 (''OpenAI API error: '' @ msg)))
   \<and> (openai_client e = None \<longrightarrow>
         primary_call e p = Inl ''OpenAI client not configured''
         \<and> quota_or_config_error ''OpenAI client not configured''
         \<and> generate e p name sign tone natal =
             Inr (local_fallback (random_seed e (seed_source name sign tone natal (seed_time e)))
                    name sign tone natal))
   \<and> (read_input req = Inr inp \<and> parse_birthday e (in_birthday inp) = Inr bday
        \<and> truthy (in_birth_time inp) \<and> truthy (in_birth_location inp)
        \<and> resolve_coords (fst (geocode_location (geo e) cache (time_time e)
                (str_opt (in_birth_location inp)))) = Inr coords
        \<and> openai_client e = Some (\<lambda>p. Inl msg) \<and> \<not> quota_or_config_error msg
       \<longrightarrow> fst (horoscope e cache req) = Inl (HTTPException 502 (''OpenAI API error: '' @ msg))
           \<and> status_of (fst (horoscope e cache req)) = 502)"
proof -
  have u: "openai_client e = None \<longrightarrow>
         primary_call e p = Inl ''OpenAI client not configured''
         \<and> quota_or_config_error ''OpenAI client not configured''
         \<and> generate e p name sign tone natal =
             Inr (local_fallback (random_seed e (seed_source name sign tone natal (seed_time e)))
                    name sign tone natal)"
    using generate_unconfigured [of e p name sign tone natal] not_configured_is_quota_like
    by (simp add: primary_call_def)
  have h: "read_input req = Inr inp \<and> parse_birthday e (in_birthday inp) = Inr bday
        \<and> truthy (in_birth_time inp) \<and> truthy (in_birth_location inp)
        \<and> resolve_coords (fst (geocode_location (geo e) cache (time_time e)
                (str_opt (in_birth_location inp)))) = Inr coords
        \<and> openai_client e = Some (\<lambda>p. Inl msg) \<and> \<not> quota_or_config_error msg
       \<longrightarrow> fst (horoscope e cache req) = Inl (HTTPException 502 (''OpenAI API error: '' @ msg))
           \<and> status_of (fst (horoscope e cache req)) = 502"
    using horoscope_generator_failure [of req inp e bday cache coords msg]
    by (auto simp: status_of_def)
  from generate_spec [of e p name sign tone natal] u h show ?thesis by blast
qed

theorem fallback_iff_quota_error_witness:
  "status_of (fst (horoscope broken_model_env Map.empty sample_request)) = 502
   \<and> \<not> quota_or_config_error ''Connection reset by peer''
   \<and> quota_or_config_error ''Error code: 429 - Rate limit reached''
   \<and> generate sample_env sample_prompt (Some ''Alex'') ''gemini'' (Some ''funny'') None
       = Inr (local_fallback
               (random_seed sample_env
                  (seed_source (Some ''Alex'') ''gemini'' (Some ''funny'') None
                     (seed_time sample_env)))
               (Some ''Alex'') ''gemini'' (Some ''funny'') None)"
proof -
  have n: "\<not> quota_or_config_error ''Connection reset by peer''"
    unfolding quota_like_spec [symmetric] quota_like_def by code_simp
  have q: "quota_or_config_error ''Error code: 429 - Rate limit reached''"
    unfolding quota_like_spec [symmetric] quota_like_def by code_simp
  have b: "parse_birthday broken_model_env (in_birthday sample_input) = Inr sample_bday"
    by (rule sample_parse_birthday) (simp add: broken_model_env_def)
  have g: "resolve_coords (fst (geocode_location (geo broken_model_env) Map.empty
              (time_time broken_model_env) (str_opt (in_birth_location sample_input))))
            = Inr (Some (48.85, 2.35, ''Europe/Paris''))"
    using sample_geocode [of "time_time sample_env"]
    by (simp add: broken_model_env_def sample_location resolve_coords_def)
  have m: "openai_client broken_model_env = Some (\<lambda>p. Inl ''Connection reset by peer'')"
    by (simp add: broken_model_env_def)
  have u: "openai_client sample_env = None" by (simp add: sample_env_def)
  note t = fallback_iff_quota_error [of broken_model_env sample_prompt None "''x''" None None
      sample_request sample_input sample_bday Map.empty "Some (48.85, 2.35, ''Europe/Paris'')"
      "''Connection reset by peer''"]
  from t sample_read_input b sample_truthy g m n
  have s: "status_of (fst (horoscope broken_model_env Map.empty sample_request)) = 502"
    by blast
  note t' = fallback_iff_quota_error [of sample_env sample_prompt "Some ''Alex''" "''gemini''"
      "Some ''funny''" None sample_request sample_input sample_bday Map.empty None "''x''"]
  from t' u
  have f: "generate sample_env sample_prompt (Some ''Alex'') ''gemini'' (Some ''funny'') None
       = Inr (local_fallback
               (random_seed sample_env
                  (seed_source (Some ''Alex'') ''gemini'' (Some ''funny'') None
                     (seed_time sample_env)))
               (Some ''Alex'') ''gemini'' (Some ''funny'') None)"
    by blast
  from s n q f show ?thesis by blast
qed


section \<open>Properties of the chart functions\<close>

lemma floor_rat_numeral: "\<lfloor>(numeral a :: rat) / numeral b\<rfloor> = numeral a div numeral b"
  using floor_divide_of_int_eq [of "numeral a" "numeral b", where ?'a = rat] by simp

lemma floor_rat_one: "\<lfloor>(1 :: rat) / numeral b\<rfloor> = 1 div numeral b"
  using floor_divide_of_int_eq [of 1 "numeral b", where ?'a = rat] by simp

lemma house_loop_numbered:
  assumes "\<forall>k < count. first + k < length cusps"
  shows "house_loop cusps [first..<first + count] num acc
       = Inr (acc @ map (\<lambda>k. house_of cusps (num + k) (first + k)) [0..<count])"
  using assms
proof (induction count arbitrary: first num acc)
  case 0
  then show ?case by simp
next
  case (Suc count)
  have lt: "first < length cusps" using Suc.prems by force
  have step: "\<forall>k < count. Suc first + k < length cusps" using Suc.prems by force
  have up: "[first..<first + Suc count] = first # [Suc first..<Suc first + count]"
    by (simp add: upt_conv_Cons)
  have m: "map (\<lambda>k. house_of cusps (num + k) (first + k)) [0..<Suc count]
      = house_of cusps num first # map (\<lambda>k. house_of cusps (Suc num + k) (Suc first + k)) [0..<count]"
    by (simp add: upt_conv_Cons map_Suc_upt [symmetric] del: upt_Suc)
  show ?case
    unfolding up m using lt Suc.IH [OF step, of "Suc num"]
    by (simp add: Let_def house_of_def)
qed

lemma cusp_indices_range:
  "cusp_indices cusps =
     (if 13 \<le> length cusps then [1..<1 + 12] else [0..<0 + min 12 (length cusps)])"
  by (simp add: cusp_indices_def)

lemma compute_house_cusps_spec:
  "compute_house_cusps lib bday birth_time lat lon tz_name =
    (case birth_julday lib bday birth_time tz_name of
       Inl e \<Rightarrow> Inl e
     | Inr jd \<Rightarrow>
        (case swe_houses lib jd lat lon of
           Inl e \<Rightarrow> Inl e
         | Inr (cusps, ascmc) \<Rightarrow>
             Inr (if 13 \<le> length cusps then numbered_houses cusps 1 12
                  else numbered_houses cusps 0 (min 12 (length cusps)))))"
proof -
  have a: "house_loop cusps (cusp_indices cusps) 1 [] =
      Inr (if 13 \<le> length cusps then numbered_houses cusps 1 12
                  else numbered_houses cusps 0 (min 12 (length cusps)))" for cusps
  proof (cases "13 \<le> length cusps")
    case True
    then have "\<forall>k < 12. 1 + k < length cusps" by auto
    from house_loop_numbered [OF this, of 1 "[]"] True show ?thesis
      by (simp add: cusp_indices_range numbered_houses_def)
  next
    case False
    have "\<forall>k < min 12 (length cusps). 0 + k < length cusps" by auto
    from house_loop_numbered [OF this, of 1 "[]"] False show ?thesis
      by (simp add: cusp_indices_range numbered_houses_def)
  qed
  show ?thesis
    unfolding compute_house_cusps_def a
    by (simp split: sum.splits prod.splits)
qed

lemma numbered_houses_numbers:
  "map cusp_house (numbered_houses cusps first count) = [1..<count + 1] \<and> length (numbered_houses cusps first count) = count"
  by (simp add: numbered_houses_def house_of_def comp_def map_Suc_upt del: upt_Suc)

lemma planet_loop_concat:
  "planet_loop lib jd ps acc =
     acc @ concat (map (\<lambda>(name, pconst).
                  case swe_calc_ut lib jd pconst of
                    Inl e \<Rightarrow> []
                  | Inr lonp \<Rightarrow> [planet_clause name lonp]) ps)"
  by (induction ps arbitrary: acc) (auto split: sum.splits)

lemma compute_natal_summary_spec:
  "compute_natal_summary lib bday birth_time lat lon tz_name =
    (case birth_julday lib bday birth_time tz_name of
       Inl e \<Rightarrow> Inl e
     | Inr jd \<Rightarrow> Inr (grouped_summary lib jd lat lon))"
  by (simp add: compute_natal_summary_def grouped_summary_def computed_planets_def
      ascendant_part_def planet_loop_concat Let_def split: sum.splits)

lemma sign_index_lt_12: "sign_index deg < 12"
proof -
  have f: "0 \<le> frac (deg / 360)" "frac (deg / 360) < 1" by (simp_all add: frac_lt_1)
  have e: "py_mod deg 360 / 30 = frac (deg / 360) * 12"
    using py_mod_frac [of 360 deg] by (simp add: field_simps)
  have "frac (deg / 360) * 12 < 12" using f by simp
  then have "\<lfloor>frac (deg / 360) * 12\<rfloor> < 12" by (simp add: floor_less_iff)
  then have "nat \<lfloor>frac (deg / 360) * 12\<rfloor> < 12" by arith
  then show ?thesis unfolding sign_index_def e .
qed


lemma house_sample_signs:
  "degree_to_sign_name 15 = ''aries''" "degree_to_sign_name 45 = ''taurus''"
  "degree_to_sign_name 75 = ''gemini''"
  by (simp_all add: degree_to_sign_name_def sign_index_def py_mod_def floor_rat_numeral
      floor_rat_one signs_def)

lemma chart_houses:
  "houses (compute_chart e bday birth_time coords) =
    (case coords of
       None \<Rightarrow> []
     | Some (lat, lon, tz_name) \<Rightarrow>
        (case compute_house_cusps (swe e) bday birth_time lat lon tz_name of
           Inl err \<Rightarrow> [] | Inr hs \<Rightarrow> hs))"
  by (simp add: compute_chart_def split: option.splits)

lemma chart_natal_summary:
  "natal_summary (compute_chart e bday birth_time coords) =
    (case coords of
       None \<Rightarrow> None
     | Some (lat, lon, tz_name) \<Rightarrow>
        (case compute_natal_summary (swe e) bday birth_time lat lon tz_name of
           Inl err \<Rightarrow> None | Inr s \<Rightarrow> Some s))"
  by (simp add: compute_chart_def split: option.splits)

text \<open>
  C7, as the code has it. When the conversion of the birth time and the ephemeris
  succeed, \<open>compute_house_cusps\<close> returns the houses numbered from 1 in ascending order,
  house 1 read at index 1 of a cusp array of 13 or more entries and at index 0 of a
  shorter one: exactly twelve of them for an array of 12 or more entries, and as many
  as the array has for a shorter one. When the conversion or the ephemeris raises, the
  function raises too; the request handler catches that and takes the empty list.
\<close>

theorem house_cusps_numbered:
  "compute_house_cusps lib bday birth_time lat lon tz_name =
    (case birth_julday lib bday birth_time tz_name of
       Inl err \<Rightarrow> Inl err
     | Inr jd \<Rightarrow>
        (case swe_houses lib jd lat lon of
           Inl err \<Rightarrow> Inl err
         | Inr (cusps, ascmc) \<Rightarrow>
             Inr (if 13 \<le> length cusps then numbered_houses cusps 1 12
                  else numbered_houses cusps 0 (min 12 (length cusps)))))
   \<and> map cusp_house (numbered_houses cusps first count) = [1..<count + 1]
   \<and> length (numbered_houses cusps first count) = count
   \<and> houses (compute_chart e bday birth_time coords) =
       (case coords of
          None \<Rightarrow> []
        | Some (lat, lon, tz_name) \<Rightarrow>
           (case compute_house_cusps (swe e) bday birth_time lat lon tz_name of
              Inl err \<Rightarrow> [] | Inr hs \<Rightarrow> hs))"
  using compute_house_cusps_spec [of lib bday birth_time lat lon tz_name]
    numbered_houses_numbers [of cusps first count] chart_houses [of e bday birth_time coords]
  by blast

theorem house_cusps_numbered_witness:
  "compute_house_cusps sample_lib sample_bday ''14:30'' 48.85 2.35 ''Europe/Paris''
     = Inr (numbered_houses [15, 45, 75, 105, 135, 165, 195, 225, 255, 285, 315, 345] 0 12)
   \<and> map cusp_house
        (numbered_houses [15, 45, 75, 105, 135, 165, 195, 225, 255, 285, 315, 345] 0 12)
     = [1..<13]
   \<and> houses (compute_chart sample_env sample_bday ''25:99''
        (Some (48.85, 2.35, ''Europe/Paris''))) = []"
proof -
  note t = house_cusps_numbered [of sample_lib sample_bday "''14:30''" "48.85" "2.35"
      "''Europe/Paris''" "[15, 45, 75, 105, 135, 165, 195, 225, 255, 285, 315, 345]" 0 12
      sample_env None]
  note u = house_cusps_numbered [of sample_lib sample_bday "''25:99''" "48.85" "2.35"
      "''Europe/Paris''" "[]" 0 0 sample_env "Some (48.85, 2.35, ''Europe/Paris'')"]
  have j: "birth_julday sample_lib sample_bday ''14:30'' ''Europe/Paris'' = Inr 2448058"
    by (simp add: sample_lib_def)
  have h: "swe_houses sample_lib jd lat lon
      = Inr ([15, 45, 75, 105, 135, 165, 195, 225, 255, 285, 315, 345], [123.47])" for jd lat lon
    by (simp add: sample_lib_def)
  have l: "length [15, 45, 75, 105, 135, 165, 195, 225, 255, 285, 315, 345 :: rat] = 12"
    by simp
  from t [THEN conjunct1]
  have a: "compute_house_cusps sample_lib sample_bday ''14:30'' 48.85 2.35 ''Europe/Paris''
     = Inr (numbered_houses [15, 45, 75, 105, 135, 165, 195, 225, 255, 285, 315, 345] 0 12)"
    by (simp only: j h l sum.case prod.case) simp
  from t have b: "map cusp_house
        (numbered_houses [15, 45, 75, 105, 135, 165, 195, 225, 255, 285, 315, 345] 0 12)
     = [1..<13]"
    by simp
  have r: "compute_house_cusps (swe sample_env) sample_bday ''25:99'' lat lon tz
      = Inl (Exception ''Invalid isoformat string'')" for lat lon tz
    by (simp add: compute_house_cusps_def sample_env_def sample_lib_def)
  from u have c: "houses (compute_chart sample_env sample_bday ''25:99''
        (Some (48.85, 2.35, ''Europe/Paris''))) = []"
    by (simp add: r)
  from a b c show ?thesis by blast
qed

text \<open>
  C7 as stated fails twice: with a cusp array of three entries the function returns
  three houses, a partial list; with a time text that does not parse it raises.
\<close>

theorem house_cusps_partial_or_raising:
  "compute_house_cusps short_lib sample_bday ''14:30'' 48.85 2.35 ''Europe/Paris'' =
     Inr [\<lparr>cusp_house = 1, cusp_sign = ''aries'', cusp_degree = 15\<rparr>,
          \<lparr>cusp_house = 2, cusp_sign = ''taurus'', cusp_degree = 15\<rparr>,
          \<lparr>cusp_house = 3, cusp_sign = ''gemini'', cusp_degree = 15\<rparr>]
   \<and> compute_house_cusps sample_lib sample_bday ''25:99'' 48.85 2.35 ''Europe/Paris'' =
       Inl (Exception ''Invalid isoformat string'')"
  by (simp add: compute_house_cusps_spec short_lib_def sample_lib_def numbered_houses_def
      house_of_def house_sample_signs py_mod_def py_round_def floor_rat_numeral floor_rat_one
      upt_conv_Cons del: upt_Suc)

text \<open>
  C8, as the code has it. When the conversion of the birth time succeeds,
  \<open>compute_natal_summary\<close> returns at most two clauses joined by \<^verbatim>\<open>; \<close>: the ascendant
  clause (sign and degree to one decimal), left out when the ascendant fails, and one
  clause \<^verbatim>\<open>Planets: \<close> listing, separated by commas, the first six of the bodies that
  were computed, in the order Sun to Pluto, each as \<^verbatim>\<open>Name in sign (deg)\<close>; a body that
  fails is skipped, and with no body computed the clause is left out; when everything
  fails the summary is empty. When the conversion raises, the function raises; the
  request handler catches that and has no summary.
\<close>

theorem natal_summary_grouped:
  "compute_natal_summary lib bday birth_time lat lon tz_name =
    (case birth_julday lib bday birth_time tz_name of
       Inl err \<Rightarrow> Inl err
     | Inr jd \<Rightarrow> Inr (grouped_summary lib jd lat lon))
   \<and> (ascendant lib jd lat lon = None \<and> computed_planets lib jd = []
        \<longrightarrow> grouped_summary lib jd lat lon = [])
   \<and> map fst planets = [''Sun'', ''Moon'', ''Mercury'', ''Venus'', ''Mars'', ''Jupiter'',
                          ''Saturn'', ''Uranus'', ''Neptune'', ''Pluto'']
   \<and> planet_clause name lonp
       = name @ '' in '' @ degree_to_sign_name lonp @ '' ('' @ fmt_1f lonp @ degree_sign @ '')''
   \<and> natal_summary (compute_chart e bday birth_time coords) =
       (case coords of
          None \<Rightarrow> None
        | Some (lat, lon, tz_name) \<Rightarrow>
           (case compute_natal_summary (swe e) bday birth_time lat lon tz_name of
              Inl err \<Rightarrow> None | Inr s \<Rightarrow> Some s))"
proof -
  have a: "ascendant lib jd lat lon = None \<and> computed_planets lib jd = []
        \<longrightarrow> grouped_summary lib jd lat lon = []"
    by (simp add: grouped_summary_def ascendant_part_def)
  have b: "map fst planets = [''Sun'', ''Moon'', ''Mercury'', ''Venus'', ''Mars'', ''Jupiter'',
                          ''Saturn'', ''Uranus'', ''Neptune'', ''Pluto'']"
    by (simp add: planets_def)
  from a b compute_natal_summary_spec [of lib bday birth_time lat lon tz_name]
    planet_clause_def [of name lonp] chart_natal_summary [of e bday birth_time coords]
  show ?thesis by blast
qed

theorem natal_summary_grouped_witness:
  "ascendant failing_lib 2448058 48.85 2.35 = None \<and> computed_planets failing_lib 2448058 = []
   \<and> grouped_summary failing_lib 2448058 48.85 2.35 = []
   \<and> compute_natal_summary failing_lib sample_bday ''14:30'' 48.85 2.35 ''Europe/Paris'' = Inr []"
proof -
  have a: "ascendant failing_lib 2448058 48.85 2.35 = None"
    by (simp add: ascendant_def failing_lib_def)
  have c: "computed_planets failing_lib 2448058 = []"
    by (simp add: computed_planets_def failing_lib_def planets_def)
  have j: "birth_julday failing_lib sample_bday ''14:30'' ''Europe/Paris'' = Inr 2448058"
    by (simp add: failing_lib_def sample_lib_def)
  note t = natal_summary_grouped [of failing_lib sample_bday "''14:30''" "48.85" "2.35"
      "''Europe/Paris''" 2448058 "''Sun''" 0 sample_env None]
  from t a c have g: "grouped_summary failing_lib 2448058 48.85 2.35 = []" by blast
  from t have "compute_natal_summary failing_lib sample_bday ''14:30'' 48.85 2.35 ''Europe/Paris''
      = (case birth_julday failing_lib sample_bday ''14:30'' ''Europe/Paris'' of
           Inl err \<Rightarrow> Inl err
         | Inr jd \<Rightarrow> Inr (grouped_summary failing_lib jd 48.85 2.35))"
    by blast
  then have "compute_natal_summary failing_lib sample_bday ''14:30'' 48.85 2.35 ''Europe/Paris''
      = Inr []"
    unfolding j using g by simp
  with a c g show ?thesis by blast
qed

lemma sun_mercury_planets:
  "computed_planets sun_mercury_lib jd =
     [''Sun in aries (10.0'' @ degree_sign @ '')'',
      ''Mercury in cancer (100.0'' @ degree_sign @ '')'']"
  by (simp add: computed_planets_def sun_mercury_lib_def planets_def planet_clause_def
      degree_to_sign_name_def sign_index_def py_mod_def floor_rat_numeral floor_rat_one
      signs_def fmt_1f_def py_round_def Let_def str_nat.simps digit_char_def)

text \<open>
  C8 as stated fails twice. With the Sun and Mercury computed, the summary is the single
  clause \<^verbatim>\<open>Planets: Sun in aries (10.0), Mercury in cancer (100.0)\<close>, not the two
  clauses joined by a semicolon; and with a time text that does not parse the function
  raises.
\<close>

theorem natal_summary_not_clause_list:
  "compute_natal_summary sun_mercury_lib sample_bday ''14:30'' 48.85 2.35 ''Europe/Paris''
     = Inr (''Planets: Sun in aries (10.0'' @ degree_sign @ ''), Mercury in cancer (100.0''
            @ degree_sign @ '')'')
   \<and> clause_list_summary sun_mercury_lib 2448058 48.85 2.35
     = ''Sun in aries (10.0'' @ degree_sign @ ''); Mercury in cancer (100.0''
            @ degree_sign @ '')''
   \<and> compute_natal_summary sample_lib sample_bday ''25:99'' 48.85 2.35 ''Europe/Paris''
     = Inl (Exception ''Invalid isoformat string'')"
proof -
  have a: "ascendant_part sun_mercury_lib jd lat lon = []" for jd lat lon
    by (simp add: ascendant_part_def ascendant_def sun_mercury_lib_def)
  have j: "birth_julday sun_mercury_lib sample_bday ''14:30'' ''Europe/Paris'' = Inr 2448058"
    by (simp add: sun_mercury_lib_def sample_lib_def)
  have "compute_natal_summary sun_mercury_lib sample_bday ''14:30'' 48.85 2.35 ''Europe/Paris''
     = Inr (''Planets: Sun in aries (10.0'' @ degree_sign @ ''), Mercury in cancer (100.0''
            @ degree_sign @ '')'')"
    by (simp add: compute_natal_summary_spec j grouped_summary_def a sun_mercury_planets)
  moreover have "clause_list_summary sun_mercury_lib 2448058 48.85 2.35
     = ''Sun in aries (10.0'' @ degree_sign @ ''); Mercury in cancer (100.0''
            @ degree_sign @ '')''"
    by (simp add: clause_list_summary_def a sun_mercury_planets)
  moreover have "compute_natal_summary sample_lib sample_bday ''25:99'' 48.85 2.35 ''Europe/Paris''
     = Inl (Exception ''Invalid isoformat string'')"
    by (simp add: compute_natal_summary_spec sample_lib_def)
  ultimately show ?thesis by blast
qed


section \<open>Properties of the request handler\<close>

lemma geocode_non_200:
  assumes "cache_miss cache now location" "nominatim_get lib location = Inr res"
    "status_code res \<noteq> 200"
  shows "geocode_location lib cache now location
      = (Inl (HTTPException 502 ''Geocoding service error''), cache)"
  using assms
  by (auto simp: geocode_location_def cache_miss_def Let_def split: option.splits)

lemma geocode_no_candidates:
  assumes "cache_miss cache now location" "nominatim_get lib location = Inr res"
    "status_code res = 200" "json res = Inr []"
  shows "geocode_location lib cache now location
      = (Inl (HTTPException 400 ''Could not geocode birth location''), cache)"
  using assms
  by (auto simp: geocode_location_def cache_miss_def Let_def split: option.splits)

lemma geocode_failure_keeps_cache:
  assumes "fst (geocode_location lib cache now location) = Inl err"
  shows "snd (geocode_location lib cache now location) = cache"
  using assms
  by (auto simp: geocode_location_def Let_def
      split: option.splits sum.splits list.splits if_splits prod.splits)

lemma horoscope_geocode_http_error:
  assumes "read_input req = Inr inp" "parse_birthday e (in_birthday inp) = Inr bday"
    "truthy (in_birth_time inp)" "truthy (in_birth_location inp)"
    and "geocode_location (geo e) cache (time_time e) (str_opt (in_birth_location inp))
          = (Inl (HTTPException code detail), cache)"
  shows "horoscope e cache req = (Inl (HTTPException code detail), cache)"
  unfolding horoscope_after_input [OF assms(1-4)]
  using assms(5) by (simp add: Let_def resolve_coords_def del: zodiac_sign.simps)

lemma horoscope_without_coords:
  assumes "read_input req = Inr inp" "parse_birthday e (in_birthday inp) = Inr bday"
    "truthy (in_birth_time inp)" "truthy (in_birth_location inp)"
    and "fst (geocode_location (geo e) cache (time_time e) (str_opt (in_birth_location inp)))
          = Inl (Exception msg)"
  shows "horoscope e cache req =
    (case generate e
            \<lparr>p_name = in_name inp, p_sign = zodiac_sign (month bday) (day bday),
             p_bday = bday, p_birth_time = str_opt (in_birth_time inp),
             p_birth_location = str_opt (in_birth_location inp), p_tone = in_tone inp,
             p_natal_summary = None, p_astronomy = []\<rparr>
            (in_name inp) (zodiac_sign (month bday) (day bday)) (in_tone inp) None of
       Inl err \<Rightarrow> (Inl err, cache)
     | Inr generated \<Rightarrow>
        (Inr (respond req generated
                \<lparr>natal_summary = None, houses = [], astronomy_data = []\<rparr>
                (zodiac_sign (month bday) (day bday)) (in_name inp)),
         cache))"
  unfolding horoscope_after_input [OF assms(1-4)]
  using assms(5) geocode_failure_keeps_cache [OF assms(5)]
  by (simp add: Let_def resolve_coords_def compute_chart_def del: zodiac_sign.simps
      cong: sum.case_cong)

lemma generate_ignores_chart_libraries:
  "generate (e\<lparr>swe := lib, open_meteo_get := om\<rparr>) p name sign tone natal
     = generate e p name sign tone natal"
  by (simp add: generate_def primary_call_def split: sum.splits option.splits)

lemma horoscope_without_coords_independent:
  assumes "read_input req = Inr inp" "parse_birthday e (in_birthday inp) = Inr bday"
    "truthy (in_birth_time inp)" "truthy (in_birth_location inp)"
    and "fst (geocode_location (geo e) cache (time_time e) (str_opt (in_birth_location inp)))
          = Inl (Exception msg)"
  shows "horoscope (e\<lparr>swe := lib, open_meteo_get := om\<rparr>) cache req = horoscope e cache req"
proof -
  have p: "parse_birthday (e\<lparr>swe := lib, open_meteo_get := om\<rparr>) (in_birthday inp) = Inr bday"
    using assms(2)
    by (simp add: parse_birthday_def fromisoformat_arg_def split: sum.splits option.splits)
  have g: "fst (geocode_location (geo (e\<lparr>swe := lib, open_meteo_get := om\<rparr>)) cache
              (time_time (e\<lparr>swe := lib, open_meteo_get := om\<rparr>))
              (str_opt (in_birth_location inp))) = Inl (Exception msg)"
    using assms(5) by simp
  show ?thesis
    unfolding horoscope_without_coords [OF assms(1) p assms(3,4) g]
      horoscope_without_coords [OF assms]
    by (simp only: generate_ignores_chart_libraries)
qed

text \<open>
  C9, as the code has it. For a request with a birthday that parses and with birth time
  and location, and no usable cache entry: an answer of the geocoding service with a
  status other than 200 ends the request with HTTP 502, an empty list of candidates ends
  it with HTTP 400. When geocoding fails with any other exception (the request itself
  raising, an answer that cannot be read), the request is not ended: the handler goes
  on without coordinates, and then it makes no use of the ephemeris nor of the astronomy
  service, the natal summary being absent and the houses and the astronomy data empty.
\<close>

theorem geocoding_failures:
  assumes "read_input req = Inr inp" "parse_birthday e (in_birthday inp) = Inr bday"
    "truthy (in_birth_time inp)" "truthy (in_birth_location inp)"
    and "cache_miss cache (time_time e) (str_opt (in_birth_location inp))"
  shows
   "(\<forall>res. nominatim_get (geo e) (str_opt (in_birth_location inp)) = Inr res
           \<and> status_code res \<noteq> 200
       \<longrightarrow> horoscope e cache req = (Inl (HTTPException 502 ''Geocoding service error''), cache))
    \<and> (\<forall>res. nominatim_get (geo e) (str_opt (in_birth_location inp)) = Inr res
           \<and> status_code res = 200 \<and> json res = Inr []
       \<longrightarrow> horoscope e cache req
            = (Inl (HTTPException 400 ''Could not geocode birth location''), cache))
    \<and> (\<forall>msg. fst (geocode_location (geo e) cache (time_time e)
                  (str_opt (in_birth_location inp))) = Inl (Exception msg)
       \<longrightarrow> horoscope e cache req =
            (case generate e
                    \<lparr>p_name = in_name inp, p_sign = zodiac_sign (month bday) (day bday),
                     p_bday = bday, p_birth_time = str_opt (in_birth_time inp),
                     p_birth_location = str_opt (in_birth_location inp),
                     p_tone = in_tone inp, p_natal_summary = None, p_astronomy = []\<rparr>
                    (in_name inp) (zodiac_sign (month bday) (day bday)) (in_tone inp) None of
               Inl err \<Rightarrow> (Inl err, cache)
             | Inr generated \<Rightarrow>
                (Inr (respond req generated
                        \<lparr>natal_summary = None, houses = [], astronomy_data = []\<rparr>
                        (zodiac_sign (month bday) (day bday)) (in_name inp)),
                 cache))
           \<and> (\<forall>lib om. horoscope (e\<lparr>swe := lib, open_meteo_get := om\<rparr>) cache req
                         = horoscope e cache req))"
proof -
  let ?loc = "str_opt (in_birth_location inp)"
  have a: "\<forall>res. nominatim_get (geo e) ?loc = Inr res \<and> status_code res \<noteq> 200
       \<longrightarrow> horoscope e cache req = (Inl (HTTPException 502 ''Geocoding service error''), cache)"
    using horoscope_geocode_http_error [OF assms(1-4)] geocode_non_200 [OF assms(5)]
    by blast
  have b: "\<forall>res. nominatim_get (geo e) ?loc = Inr res
           \<and> status_code res = 200 \<and> json res = Inr []
       \<longrightarrow> horoscope e cache req
            = (Inl (HTTPException 400 ''Could not geocode birth location''), cache)"
    using horoscope_geocode_http_error [OF assms(1-4)] geocode_no_candidates [OF assms(5)]
    by blast
  from a b horoscope_without_coords [OF assms(1-4)]
    horoscope_without_coords_independent [OF assms(1-4)]
  show ?thesis by blast
qed

theorem geocoding_failures_witness:
  "read_input sample_request = Inr sample_input
   \<and> cache_miss Map.empty (time_time unavailable_env) ''Paris, France''
   \<and> horoscope unavailable_env Map.empty sample_request
       = (Inl (HTTPException 502 ''Geocoding service error''), Map.empty)
   \<and> horoscope (timeout_env\<lparr>swe := failing_lib,
                               open_meteo_get := (\<lambda>lat lon. Inl (Exception ''down''))\<rparr>)
         Map.empty sample_request
       = horoscope timeout_env Map.empty sample_request"
proof -
  have p': "parse_birthday timeout_env (in_birthday sample_input) = Inr sample_bday"
    by (rule sample_parse_birthday) (simp add: timeout_env_def)
  have m': "cache_miss Map.empty (time_time timeout_env) ''Paris, France''"
    by (simp add: cache_miss_def)
  note t' = geocoding_failures [OF sample_read_input p' sample_truthy
      m' [folded sample_location]]
  from t' timeout_geocode [of "time_time timeout_env"]
  have i: "horoscope (timeout_env\<lparr>swe := failing_lib,
                               open_meteo_get := (\<lambda>lat lon. Inl (Exception ''down''))\<rparr>)
         Map.empty sample_request
       = horoscope timeout_env Map.empty sample_request"
    unfolding sample_location by blast
  have p: "parse_birthday unavailable_env (in_birthday sample_input) = Inr sample_bday"
    by (rule sample_parse_birthday) (simp add: unavailable_env_def)
  have m: "cache_miss Map.empty (time_time unavailable_env) ''Paris, France''"
    by (simp add: cache_miss_def)
  have n: "nominatim_get (geo unavailable_env) ''Paris, France''
      = Inr \<lparr>status_code = 503, json = Inr []\<rparr>"
    by (simp add: unavailable_env_def)
  note t = geocoding_failures [OF sample_read_input p sample_truthy
      m [folded sample_location]]
  from t n have "horoscope unavailable_env Map.empty sample_request
       = (Inl (HTTPException 502 ''Geocoding service error''), Map.empty)"
    unfolding sample_location by simp
  with sample_read_input m i show ?thesis by blast
qed

text \<open>
  C9 as stated fails when the geocoding request times out: the request is answered 200
  with a horoscope all the same.
\<close>

theorem geocoding_timeout_not_blocking:
  "fst (geocode_location (geo timeout_env) Map.empty (time_time timeout_env) ''Paris, France'')
     = Inl (Exception ''timed out'')
   \<and> status_of (fst (horoscope timeout_env Map.empty sample_request)) = 200"
proof -
  have p: "parse_birthday timeout_env (in_birthday sample_input) = Inr sample_bday"
    by (rule sample_parse_birthday) (simp add: timeout_env_def)
  have u: "openai_client timeout_env = None" by (simp add: timeout_env_def sample_env_def)
  have "status_of (fst (horoscope timeout_env Map.empty sample_request)) = 200"
    unfolding horoscope_without_coords [OF sample_read_input p sample_truthy
        timeout_geocode [of "time_time timeout_env", folded sample_location]]
      generate_unconfigured [OF u]
    by (simp add: status_of_def)
  with timeout_geocode show ?thesis by blast
qed

lemma horoscope_no_birthday:
  assumes "no_birthday req"
  shows "horoscope e cache req = (Inl (HTTPException 400 ''Invalid birthday format''), cache)"
proof (cases "py_in ''application/json'' (content_type req)")
  case True
  with assms obtain payload where "json_body req = Inr payload"
    and "payload ''birthday'' = None \<or> payload ''birthday'' = Some None"
    by (auto simp: no_birthday_def split: sum.splits)
  with True show ?thesis
    by (auto simp: horoscope_def read_input_def json_get_def parse_birthday_def
        fromisoformat_arg_def)
next
  case False
  with assms obtain form where "form_body req = Inr form" and "form ''birthday'' = None"
    by (auto simp: no_birthday_def split: sum.splits)
  with False show ?thesis
    by (auto simp: horoscope_def read_input_def parse_birthday_def fromisoformat_arg_def)
qed

lemma horoscope_malformed_birthday:
  assumes "read_input req = Inr inp" "in_birthday inp = Some s" "date_fromisoformat e s = Inl err"
  shows "horoscope e cache req = (Inl (HTTPException 400 ''Invalid birthday format''), cache)"
  using assms by (simp add: horoscope_def parse_birthday_def fromisoformat_arg_def)

text \<open>
  C10. A request whose body provides no birthday (the key missing or \<^verbatim>\<open>null\<close> in the JSON
  object, the field missing in the form) is answered HTTP 400 with the detail
  \<^verbatim>\<open>Invalid birthday format\<close>, whatever its other fields are, those for birth time and
  birth location included: the birthday is parsed before they are looked at. It is the
  answer a birthday text that does not parse gets.
\<close>

theorem missing_birthday_is_invalid:
  assumes "no_birthday req"
  shows "horoscope e cache req = (Inl (HTTPException 400 ''Invalid birthday format''), cache)
    \<and> status_of (fst (horoscope e cache req)) = 400
    \<and> (\<forall>req' inp s err. read_input req' = Inr inp \<and> in_birthday inp = Some s
            \<and> date_fromisoformat e s = Inl err
          \<longrightarrow> horoscope e cache req' = horoscope e cache req)"
proof -
  note h = horoscope_no_birthday [OF assms, of e cache]
  have "status_of (fst (horoscope e cache req)) = 400"
    unfolding h by (simp add: status_of_def)
  moreover have "\<forall>req' inp s err. read_input req' = Inr inp \<and> in_birthday inp = Some s
            \<and> date_fromisoformat e s = Inl err
          \<longrightarrow> horoscope e cache req' = horoscope e cache req"
    unfolding h using horoscope_malformed_birthday by blast
  ultimately show ?thesis using h by blast
qed

theorem missing_birthday_is_invalid_witness:
  "no_birthday empty_request
   \<and> horoscope sample_env Map.empty empty_request
       = (Inl (HTTPException 400 ''Invalid birthday format''), Map.empty)
   \<and> horoscope sample_env Map.empty malformed_request
       = horoscope sample_env Map.empty empty_request"
proof -
  have n: "no_birthday empty_request"
    by (simp add: no_birthday_def empty_request_def sample_request_def)
  have r: "read_input malformed_request =
      Inr \<lparr>in_name = None, in_birthday = Some ''not-a-date'', in_birth_time = Some ''14:30'',
           in_birth_location = Some ''Paris, France'', in_tone = Some ''funny''\<rparr>"
    by (simp add: read_input_def malformed_request_def sample_request_def json_get_def
        json_get_default_def)
  have d: "date_fromisoformat sample_env ''not-a-date''
      = Inl (Exception ''Invalid isoformat string'')"
    by (simp add: sample_env_def)
  note t = missing_birthday_is_invalid [OF n, of sample_env Map.empty]
  from t r d have "horoscope sample_env Map.empty malformed_request
       = horoscope sample_env Map.empty empty_request"
    by (metis birth_input.select_convs(2))
  with t n show ?thesis by blast
qed


end
